theory Spec2Isabelle
  imports Main "HOL-Library.Word"
begin

section \<open>The Portainer API client (src/client.ts)\<close>

text \<open>
  A shallow embedding of the class \<^verbatim>\<open>PortainerClient\<close>. Every method is a function
  from the log of the \<^verbatim>\<open>fetch\<close> calls issued so far to its outcome and the new
  log; every \<^verbatim>\<open>throw\<close> is a value of a sum type. What the class takes from the
  JavaScript platform (\<^verbatim>\<open>fetch\<close> and the remote behind it, \<^verbatim>\<open>JSON.parse\<close>,
  \<^verbatim>\<open>JSON.stringify\<close>, \<^verbatim>\<open>encodeURIComponent\<close>, the UTF-8 decoder of
  \<^verbatim>\<open>Buffer.toString\<close>) is a parameter of the model, so the theorems hold for every
  behaviour of the platform. Numbers are integers, printed in decimal as JavaScript
  prints them; values that are not integers are outside the model. Timers are not
  modelled: an abort shows as a rejection of \<^verbatim>\<open>fetch\<close> with an error named
  \<^verbatim>\<open>AbortError\<close>.
\<close>

subsection \<open>Values of the platform\<close>

type_synonym byte = "8 word"

text \<open>
  A thrown value that is not a \<^verbatim>\<open>PortainerClientError\<close>. The client observes three
  things of it: \<^verbatim>\<open>error instanceof Error\<close>, \<^verbatim>\<open>error.name\<close> and the
  string \<^verbatim>\<open>`${error}`\<close>.
\<close>

record js_error =
  instanceof_Error :: bool
  error_name :: string
  error_string :: string

text \<open>
  A value produced by \<^verbatim>\<open>JSON.parse\<close>, an object listing each of its members
  once; \<open>None\<close> of type \<open>json option\<close> stands for \<^verbatim>\<open>undefined\<close>. \<open>ToBoolean\<close> is the truth value JavaScript gives a value in
  \<^verbatim>\<open>a || b\<close> and \<^verbatim>\<open>!a\<close>. \<open>get_property\<close> is the property access
  \<^verbatim>\<open>v.key\<close> for the keys the client reads (\<^verbatim>\<open>message\<close>, \<^verbatim>\<open>details\<close>,
  \<^verbatim>\<open>Name\<close>): a \<^verbatim>\<open>TypeError\<close> on \<^verbatim>\<open>null\<close>, the member of an object,
  \<^verbatim>\<open>undefined\<close> on every other value. \<open>ToString\<close> is the conversion the
  \<^verbatim>\<open>Error\<close> constructor applies to its message: arrays are joined with commas,
  an object is \<^verbatim>\<open>[object Object]\<close> unless a member named \<^verbatim>\<open>toString\<close> hides
  the method of that name, in which case the conversion throws.
\<close>

datatype json =
    JNull
  | JBool bool
  | JNumber int
  | JString string
  | JArray "json list"
  | JObject "(string \<times> json) list"

fun show_nat :: "nat \<Rightarrow> string" where
  "show_nat n =
     (if n < 10 then [''0123456789'' ! n]
      else show_nat (n div 10) @ [''0123456789'' ! (n mod 10)])"

declare show_nat.simps [simp del]

definition show_int :: "int \<Rightarrow> string" where
  "show_int i = (if i < 0 then CHR ''-'' # show_nat (nat (- i)) else show_nat (nat i))"

definition TypeError :: "string \<Rightarrow> js_error" where
  "TypeError msg =
     \<lparr>instanceof_Error = True, error_name = ''TypeError'', error_string = ''TypeError: '' @ msg\<rparr>"

fun ToBoolean :: "json option \<Rightarrow> bool" where
  "ToBoolean None = False"
| "ToBoolean (Some JNull) = False"
| "ToBoolean (Some (JBool b)) = b"
| "ToBoolean (Some (JNumber n)) = (n \<noteq> 0)"
| "ToBoolean (Some (JString s)) = (s \<noteq> [])"
| "ToBoolean (Some (JArray _)) = True"
| "ToBoolean (Some (JObject _)) = True"

fun get_property :: "json \<Rightarrow> string \<Rightarrow> js_error + json option" where
  "get_property JNull key = Inl (TypeError (''Cannot read properties of null (reading '' @ key @ '')''))"
| "get_property (JObject members) key = Inr (map_of members key)"
| "get_property _ key = Inr None"

fun ToString :: "json \<Rightarrow> js_error + string"
  and join_comma :: "json list \<Rightarrow> js_error + string" where
  "ToString JNull = Inr ''null''"
| "ToString (JBool b) = Inr (if b then ''true'' else ''false'')"
| "ToString (JNumber n) = Inr (show_int n)"
| "ToString (JString s) = Inr s"
| "ToString (JArray elements) = join_comma elements"
| "ToString (JObject members) =
     (if map_of members ''toString'' = None then Inr ''[object Object]''
      else Inl (TypeError ''Cannot convert object to primitive value''))"
| "join_comma [] = Inr []"
| "join_comma (x # xs) =
     (case (if x = JNull then Inr [] else ToString x) of
        Inl e \<Rightarrow> Inl e
      | Inr s \<Rightarrow>
          (if xs = [] then Inr s
           else (case join_comma xs of Inl e \<Rightarrow> Inl e | Inr t \<Rightarrow> Inr (s @ '','' @ t))))"

text \<open>
  \<^verbatim>\<open>buffer.readUInt32BE(offset)\<close> of Node: a \<^verbatim>\<open>RangeError\<close> unless the four
  bytes at \<open>offset\<close> lie inside the buffer, else their big-endian value.
\<close>

definition ERR_OUT_OF_RANGE :: js_error where
  "ERR_OUT_OF_RANGE =
     \<lparr>instanceof_Error = True, error_name = ''RangeError'',
      error_string = ''RangeError [ERR_OUT_OF_RANGE]: The value of offset is out of range.''\<rparr>"

definition readUInt32BE :: "byte list \<Rightarrow> nat \<Rightarrow> js_error + nat" where
  "readUInt32BE buffer offset =
     (if offset + 4 \<le> length buffer
      then Inr (unat (buffer ! offset) * 2 ^ 24 + unat (buffer ! (offset + 1)) * 2 ^ 16
                + unat (buffer ! (offset + 2)) * 2 ^ 8 + unat (buffer ! (offset + 3)))
      else Inl ERR_OUT_OF_RANGE)"

text \<open>
  \<^verbatim>\<open>buffer.subarray(start, end)\<close>: both indices are clamped to the length of the
  buffer; \<^verbatim>\<open>buffer.subarray(start)\<close> is \<open>subarray buffer start (length buffer)\<close>.
\<close>

definition subarray :: "byte list \<Rightarrow> nat \<Rightarrow> nat \<Rightarrow> byte list" where
  "subarray buffer start end' =
     (let s = min start (length buffer); e = min end' (length buffer)
      in take (e - s) (drop s buffer))"

subsection \<open>Errors, calls and responses\<close>

text \<open>
  \<^verbatim>\<open>PortainerClientError\<close> (client.ts, lines 17 to 26), and what a method can throw:
  that error or any other value. A \<open>fetch_call\<close> records the arguments of one call of
  \<^verbatim>\<open>fetch\<close>. A \<open>response\<close> carries what the client reads of a
  \<^verbatim>\<open>Response\<close>: \<^verbatim>\<open>ok\<close>, \<^verbatim>\<open>status\<close>, and the outcomes of
  \<^verbatim>\<open>await response.text()\<close> and \<^verbatim>\<open>await response.arrayBuffer()\<close>, each of
  which may reject. The platform sets \<^verbatim>\<open>ok\<close> for a status from 200 to 299; the
  client reads the flag, and so does the model. The answer of \<open>fetch\<close> may depend on
  the calls made before.
\<close>

record PortainerClientError =
  message :: string
  code :: string
  statusCode :: "nat option"

datatype exn = ClientError PortainerClientError | OtherError js_error

record fetch_call =
  call_url :: string
  call_method :: string
  call_headers :: "(string \<times> string) list"
  call_body :: "string option"

record response =
  ok :: bool
  status :: nat
  text_result :: "js_error + string"
  arrayBuffer_result :: "js_error + byte list"

datatype fetch_result = Rejected js_error | Resolved response

record 'c platform =
  fetch :: "fetch_call list \<Rightarrow> fetch_call \<Rightarrow> fetch_result"
  JSON_parse :: "string \<Rightarrow> js_error + json"
  JSON_stringify :: "json \<Rightarrow> string"
  encodeURIComponent :: "string \<Rightarrow> js_error + string"
  Buffer_toString :: "byte list \<Rightarrow> 'c list"

subsection \<open>The client\<close>

text \<open>
  The fields and the constructor (lines 28 to 37): one trailing slash of the base
  address is removed, and the write flag is \<open>False\<close> when it is not given.
\<close>

record PortainerClient =
  baseUrl :: string
  apiKey :: string
  writeEnabled :: bool

definition new_PortainerClient :: "string \<Rightarrow> string \<Rightarrow> bool option \<Rightarrow> PortainerClient" where
  "new_PortainerClient base key flag =
     \<lparr>baseUrl = (if base \<noteq> [] \<and> last base = CHR ''/'' then butlast base else base),
      apiKey = key,
      writeEnabled = (case flag of None \<Rightarrow> False | Some b \<Rightarrow> b)\<rparr>"

subsection \<open>request and the write gate\<close>

text \<open>
  \<open>request_error_message\<close> is the value of the variable \<^verbatim>\<open>message\<close> at line 82
  (lines 65 to 80, with the inner \<^verbatim>\<open>try\<close>/\<^verbatim>\<open>catch\<close> around the parse of the
  body), and \<open>new_Error_message\<close> the string the constructor of the error makes of it.
  \<open>request_try\<close> is the \<^verbatim>\<open>try\<close> block from the point where \<^verbatim>\<open>fetch\<close> has
  settled (lines 61 to 92), \<open>request_catch\<close> the \<^verbatim>\<open>catch\<close> block (lines 93 to
  106), \<open>request_call\<close> the arguments given to \<^verbatim>\<open>fetch\<close> (lines 46 to 59).
  \<open>checkWriteEnabled\<close> is lines 109 to 116.
\<close>

definition new_Error_message :: "json option \<Rightarrow> js_error + string" where
  "new_Error_message msg = (case msg of None \<Rightarrow> Inr [] | Some v \<Rightarrow> ToString v)"

definition request_error_message :: "'c platform \<Rightarrow> nat \<Rightarrow> string \<Rightarrow> string \<Rightarrow> json option" where
  "request_error_message pf status' path errorBody =
     (let msg = Some (JString (''Portainer API error: '' @ show_nat status')) in
      if status' = 401 then Some (JString ''Invalid API key or expired token'')
      else if status' = 403 then Some (JString ''Insufficient permissions for this operation'')
      else if status' = 404 then Some (JString (''Resource not found: '' @ path))
      else (case JSON_parse pf errorBody of
              Inl _ \<Rightarrow> msg
            | Inr parsed \<Rightarrow>
                (case get_property parsed ''message'' of
                   Inl _ \<Rightarrow> msg
                 | Inr m \<Rightarrow>
                     if ToBoolean m then m
                     else (case get_property parsed ''details'' of
                             Inl _ \<Rightarrow> msg
                           | Inr d \<Rightarrow> if ToBoolean d then d else msg))))"

definition request_try :: "'c platform \<Rightarrow> string \<Rightarrow> bool \<Rightarrow> fetch_result \<Rightarrow> exn + json" where
  "request_try pf path raw fetched =
     (case fetched of
        Rejected e \<Rightarrow> Inl (OtherError e)
      | Resolved response \<Rightarrow>
          if \<not> ok response then
            (case text_result response of
               Inl e \<Rightarrow> Inl (OtherError e)
             | Inr errorBody \<Rightarrow>
                 (case new_Error_message
                         (request_error_message pf (status response) path errorBody) of
                    Inl e \<Rightarrow> Inl (OtherError e)
                  | Inr msg \<Rightarrow>
                      Inl (ClientError
                            \<lparr>message = msg,
                             code = ''HTTP_'' @ show_nat (status response),
                             statusCode = Some (status response)\<rparr>)))
          else
            (case text_result response of
               Inl e \<Rightarrow> Inl (OtherError e)
             | Inr t \<Rightarrow>
                 if t = [] then Inr (JObject [])
                 else if raw then Inr (JString t)
                 else (case JSON_parse pf t of
                         Inl e \<Rightarrow> Inl (OtherError e)
                       | Inr v \<Rightarrow> Inr v)))"

definition request_catch :: "PortainerClient \<Rightarrow> nat \<Rightarrow> exn + json \<Rightarrow> exn + json" where
  "request_catch client timeout outcome =
     (case outcome of
        Inr v \<Rightarrow> Inr v
      | Inl (ClientError e) \<Rightarrow> Inl (ClientError e)
      | Inl (OtherError error) \<Rightarrow>
          if instanceof_Error error \<and> error_name error = ''AbortError''
          then Inl (ClientError
                     \<lparr>message = ''Request timeout after '' @ show_nat timeout @ ''ms'',
                      code = ''TIMEOUT'', statusCode = None\<rparr>)
          else Inl (ClientError
                     \<lparr>message = ''Cannot connect to Portainer at '' @ baseUrl client @ '': ''
                                 @ error_string error,
                      code = ''CONNECTION_ERROR'', statusCode = None\<rparr>))"

definition request_call ::
  "'c platform \<Rightarrow> PortainerClient \<Rightarrow> string \<Rightarrow> string \<Rightarrow> json option \<Rightarrow> fetch_call" where
  "request_call pf client method path body =
     \<lparr>call_url = baseUrl client @ ''/api'' @ path,
      call_method = method,
      call_headers = [(''X-API-Key'', apiKey client), (''Content-Type'', ''application/json'')],
      call_body = (case body of
                     None \<Rightarrow> None
                   | Some b \<Rightarrow> if ToBoolean body then Some (JSON_stringify pf b) else None)\<rparr>"

definition request ::
  "'c platform \<Rightarrow> PortainerClient \<Rightarrow> string \<Rightarrow> string \<Rightarrow> json option \<Rightarrow> nat \<Rightarrow> bool
     \<Rightarrow> fetch_call list \<Rightarrow> (exn + json) \<times> fetch_call list" where
  "request pf client method path body timeout raw net =
     (let call = request_call pf client method path body
      in (request_catch client timeout (request_try pf path raw (fetch pf net call)),
          net @ [call]))"

definition checkWriteEnabled :: "PortainerClient \<Rightarrow> exn + unit" where
  "checkWriteEnabled client =
     (if \<not> writeEnabled client
      then Inl (ClientError
                 \<lparr>message = ''Write operations disabled. Set PORTAINER_WRITE_ENABLED=true to enable.'',
                  code = ''WRITE_DISABLED'', statusCode = None\<rparr>)
      else Inr ())"

subsection \<open>The log demultiplexer: stripDockerLogHeaders\<close>

text \<open>
  One pass through the body of the \<^verbatim>\<open>while\<close> loop (client.ts, lines 206 to 218),
  entered with \<open>offset + 8 \<le> length buffer\<close>. The pass ends in \<^verbatim>\<open>continue\<close> or at
  the end of the body (\<open>Continue\<close>, with the new offset and chunks), in
  \<^verbatim>\<open>break\<close> (\<open>Break\<close>) or in an exception of \<^verbatim>\<open>readUInt32BE\<close>
  (\<open>Throw\<close>). The decoder \<open>toString_utf8\<close> stands for
  \<^verbatim>\<open>.toString("utf8")\<close>; a decoded string is a list of characters.
\<close>

datatype 'c iteration =
    Continue nat "'c list list"
  | Break "'c list list"
  | Throw js_error

definition loop_body ::
  "(byte list \<Rightarrow> 'c list) \<Rightarrow> byte list \<Rightarrow> nat \<Rightarrow> 'c list list \<Rightarrow> 'c iteration" where
  "loop_body toString_utf8 buffer offset chunks =
     (case readUInt32BE buffer (offset + 4) of
        Inl e \<Rightarrow> Throw e
      | Inr size' \<Rightarrow>
          (let offset = offset + 8 in
           if size' = 0 then Continue offset chunks
           else if offset + size' > length buffer
           then Break (chunks @ [toString_utf8 (subarray buffer offset (length buffer))])
           else Continue (offset + size')
                  (chunks @ [toString_utf8 (subarray buffer offset (offset + size'))])))"

function while_loop ::
  "(byte list \<Rightarrow> 'c list) \<Rightarrow> byte list \<Rightarrow> nat \<Rightarrow> 'c list list \<Rightarrow> js_error + 'c list list" where
  "while_loop toString_utf8 buffer offset chunks =
     (if offset + 8 \<le> length buffer
      then (case loop_body toString_utf8 buffer offset chunks of
              Continue offset' chunks' \<Rightarrow> while_loop toString_utf8 buffer offset' chunks'
            | Break chunks' \<Rightarrow> Inr chunks'
            | Throw e \<Rightarrow> Inl e)
      else Inr chunks)"
  by pat_completeness auto
termination
proof (relation "measure (\<lambda>(d, buffer, offset, chunks). length buffer - offset)")
  show "wf (measure (\<lambda>(d :: byte list \<Rightarrow> 'c list, buffer, offset, chunks :: 'c list list).
              length buffer - offset))"
    by simp
next
  fix d :: "byte list \<Rightarrow> 'c list" and buffer offset chunks offset' chunks'
  assume a: "offset + 8 \<le> length buffer"
    and b: "loop_body d buffer offset chunks = Continue offset' chunks'"
  from b have "offset + 8 \<le> offset'"
    by (auto simp: loop_body_def Let_def split: sum.splits if_splits)
  with a show "((d, buffer, offset', chunks'), (d, buffer, offset, chunks))
      \<in> measure (\<lambda>(d, buffer, offset, chunks). length buffer - offset)"
    by auto
qed

declare while_loop.simps [simp del]

definition stripDockerLogHeaders ::
  "(byte list \<Rightarrow> 'c list) \<Rightarrow> byte list \<Rightarrow> js_error + 'c list" where
  "stripDockerLogHeaders toString_utf8 buffer =
     (case buffer of
        [] \<Rightarrow> Inr []
      | firstByte # _ \<Rightarrow>
          if firstByte > 2 then Inr (toString_utf8 buffer)
          else (case while_loop toString_utf8 buffer 0 [] of
                  Inl e \<Rightarrow> Inl e
                | Inr chunks \<Rightarrow> Inr (concat chunks)))"

subsection \<open>getContainerLogs\<close>

text \<open>
  Lines 146 to 187. \<open>tail_arg\<close> is the optional argument \<^verbatim>\<open>tail\<close> (default 100);
  \<open>clampedTail\<close> is the constant of line 151.
\<close>

definition clampedTail :: "int \<Rightarrow> int" where
  "clampedTail tail = min (max tail 1) 10000"

definition logs_try :: "'c platform \<Rightarrow> fetch_result \<Rightarrow> exn + 'c list" where
  "logs_try pf fetched =
     (case fetched of
        Rejected e \<Rightarrow> Inl (OtherError e)
      | Resolved response \<Rightarrow>
          if \<not> ok response
          then Inl (ClientError
                     \<lparr>message = ''Failed to get logs: '' @ show_nat (status response),
                      code = ''HTTP_'' @ show_nat (status response),
                      statusCode = Some (status response)\<rparr>)
          else (case arrayBuffer_result response of
                  Inl e \<Rightarrow> Inl (OtherError e)
                | Inr arrayBuffer \<Rightarrow>
                    (case stripDockerLogHeaders (Buffer_toString pf) arrayBuffer of
                       Inl e \<Rightarrow> Inl (OtherError e)
                     | Inr s \<Rightarrow> Inr s)))"

definition logs_catch :: "exn + 'c list \<Rightarrow> exn + 'c list" where
  "logs_catch outcome =
     (case outcome of
        Inr v \<Rightarrow> Inr v
      | Inl (ClientError e) \<Rightarrow> Inl (ClientError e)
      | Inl (OtherError error) \<Rightarrow>
          if instanceof_Error error \<and> error_name error = ''AbortError''
          then Inl (ClientError
                     \<lparr>message = ''Request timeout after 60000ms'',
                      code = ''TIMEOUT'', statusCode = None\<rparr>)
          else Inl (ClientError
                     \<lparr>message = ''Cannot connect to Portainer: '' @ error_string error,
                      code = ''CONNECTION_ERROR'', statusCode = None\<rparr>))"

definition logs_call :: "PortainerClient \<Rightarrow> int \<Rightarrow> string \<Rightarrow> int option \<Rightarrow> fetch_call" where
  "logs_call client envId containerId tail_arg =
     (let tail = (case tail_arg of None \<Rightarrow> 100 | Some t \<Rightarrow> t)
      in \<lparr>call_url = baseUrl client @ ''/api/endpoints/'' @ show_int envId
                      @ ''/docker/containers/'' @ containerId
                      @ ''/logs?stdout=true&stderr=true&tail='' @ show_int (clampedTail tail),
          call_method = ''GET'',
          call_headers = [(''X-API-Key'', apiKey client)],
          call_body = None\<rparr>)"

definition getContainerLogs ::
  "'c platform \<Rightarrow> PortainerClient \<Rightarrow> int \<Rightarrow> string \<Rightarrow> int option
     \<Rightarrow> fetch_call list \<Rightarrow> (exn + 'c list) \<times> fetch_call list" where
  "getContainerLogs pf client envId containerId tail_arg net =
     (let call = logs_call client envId containerId tail_arg
      in (logs_catch (logs_try pf (fetch pf net call)), net @ [call]))"

subsection \<open>Stacks by name\<close>

text \<open>
  Lines 254 to 256 and 453 to 460. \<open>find_Name\<close> is
  \<^verbatim>\<open>stacks.find((s) => s.Name === name)\<close> on an array: the first element whose
  member \<^verbatim>\<open>Name\<close> is the string \<open>name\<close>, \<^verbatim>\<open>undefined\<close> when there is
  none, and the \<^verbatim>\<open>TypeError\<close> of the property access when an element that is
  reached is \<^verbatim>\<open>null\<close>. On a value that is not an array, \<^verbatim>\<open>stacks.find\<close> is
  not a function.
\<close>

definition getStacks ::
  "'c platform \<Rightarrow> PortainerClient \<Rightarrow> fetch_call list \<Rightarrow> (exn + json) \<times> fetch_call list" where
  "getStacks pf client net = request pf client ''GET'' ''/stacks'' None 30000 False net"

fun find_Name :: "string \<Rightarrow> json list \<Rightarrow> js_error + json option" where
  "find_Name name [] = Inr None"
| "find_Name name (s # rest) =
     (case get_property s ''Name'' of
        Inl e \<Rightarrow> Inl e
      | Inr v \<Rightarrow> if v = Some (JString name) then Inr (Some s) else find_Name name rest)"

definition getStackByName ::
  "'c platform \<Rightarrow> PortainerClient \<Rightarrow> string \<Rightarrow> fetch_call list \<Rightarrow> (exn + json) \<times> fetch_call list" where
  "getStackByName pf client name net =
     (case getStacks pf client net of
        (Inl e, net') \<Rightarrow> (Inl e, net')
      | (Inr (JArray stacks), net') \<Rightarrow>
          (let not_found = (Inl (ClientError \<lparr>message = ''Stack not found: '' @ name,
                                               code = ''NOT_FOUND'', statusCode = Some 404\<rparr>),
                            net')
           in case find_Name name stacks of
                Inl e \<Rightarrow> (Inl (OtherError e), net')
              | Inr None \<Rightarrow> not_found
              | Inr (Some stack) \<Rightarrow>
                  if \<not> ToBoolean (Some stack) then not_found else (Inr stack, net'))
      | (Inr _, net') \<Rightarrow> (Inl (OtherError (TypeError ''stacks.find is not a function'')), net'))"

subsection \<open>The mutating operations\<close>

text \<open>
  The twelve methods that start with \<^verbatim>\<open>this.checkWriteEnabled()\<close> (lines 224 to
  428). A method declared \<^verbatim>\<open>Promise<void>\<close> drops the value of the request.
\<close>

definition void_result :: "(exn + json) \<times> fetch_call list \<Rightarrow> (exn + unit) \<times> fetch_call list" where
  "void_result r = (case r of (Inl e, net) \<Rightarrow> (Inl e, net) | (Inr _, net) \<Rightarrow> (Inr (), net))"

datatype container_action = Start | Stop | Restart | Kill | Remove

fun container_action_string :: "container_action \<Rightarrow> string" where
  "container_action_string Start = ''start''"
| "container_action_string Stop = ''stop''"
| "container_action_string Restart = ''restart''"
| "container_action_string Kill = ''kill''"
| "container_action_string Remove = ''remove''"

definition containerAction ::
  "'c platform \<Rightarrow> PortainerClient \<Rightarrow> int \<Rightarrow> string \<Rightarrow> container_action
     \<Rightarrow> fetch_call list \<Rightarrow> (exn + unit) \<times> fetch_call list" where
  "containerAction pf client envId containerId action net =
     (case checkWriteEnabled client of
        Inl e \<Rightarrow> (Inl e, net)
      | Inr _ \<Rightarrow>
          if action = Remove
          then void_result (request pf client ''DELETE''
                 (''/endpoints/'' @ show_int envId @ ''/docker/containers/'' @ containerId
                  @ ''?force=true'') None 30000 False net)
          else void_result (request pf client ''POST''
                 (''/endpoints/'' @ show_int envId @ ''/docker/containers/'' @ containerId
                  @ ''/'' @ container_action_string action) None 30000 False net))"

datatype stack_action = StartStack | StopStack

fun stack_action_string :: "stack_action \<Rightarrow> string" where
  "stack_action_string StartStack = ''start''"
| "stack_action_string StopStack = ''stop''"

definition stackAction ::
  "'c platform \<Rightarrow> PortainerClient \<Rightarrow> int \<Rightarrow> stack_action
     \<Rightarrow> fetch_call list \<Rightarrow> (exn + unit) \<times> fetch_call list" where
  "stackAction pf client stackId action net =
     (case checkWriteEnabled client of
        Inl e \<Rightarrow> (Inl e, net)
      | Inr _ \<Rightarrow>
          void_result (request pf client ''POST''
            (''/stacks/'' @ show_int stackId @ ''/'' @ stack_action_string action)
            None 30000 False net))"

definition env_json :: "(string \<times> string) list \<Rightarrow> json" where
  "env_json env =
     JArray (map (\<lambda>(n, v). JObject [(''name'', JString n), (''value'', JString v)]) env)"

definition createStack ::
  "'c platform \<Rightarrow> PortainerClient \<Rightarrow> int \<Rightarrow> string \<Rightarrow> string \<Rightarrow> (string \<times> string) list option
     \<Rightarrow> fetch_call list \<Rightarrow> (exn + json) \<times> fetch_call list" where
  "createStack pf client envId name composeContent env net =
     (case checkWriteEnabled client of
        Inl e \<Rightarrow> (Inl e, net)
      | Inr _ \<Rightarrow>
          (let body = [(''name'', JString name), (''stackFileContent'', JString composeContent)]
                      @ (case env of
                           None \<Rightarrow> []
                         | Some vars \<Rightarrow> if length vars > 0 then [(''env'', env_json vars)] else [])
           in request pf client ''POST''
                (''/stacks/create/standalone/string?endpointId='' @ show_int envId)
                (Some (JObject body)) 30000 False net))"

record update_options =
  opt_composeContent :: "string option"
  opt_env :: "(string \<times> string) list option"
  opt_prune :: "bool option"
  opt_pullImage :: "bool option"

definition updateStack ::
  "'c platform \<Rightarrow> PortainerClient \<Rightarrow> int \<Rightarrow> int \<Rightarrow> update_options
     \<Rightarrow> fetch_call list \<Rightarrow> (exn + json) \<times> fetch_call list" where
  "updateStack pf client stackId envId options net =
     (case checkWriteEnabled client of
        Inl e \<Rightarrow> (Inl e, net)
      | Inr _ \<Rightarrow>
          (let body = (case opt_composeContent options of
                         None \<Rightarrow> [] | Some c \<Rightarrow> [(''stackFileContent'', JString c)])
                      @ (case opt_env options of
                           None \<Rightarrow> [] | Some vars \<Rightarrow> [(''env'', env_json vars)])
                      @ (case opt_prune options of
                           None \<Rightarrow> [] | Some b \<Rightarrow> [(''prune'', JBool b)])
                      @ (case opt_pullImage options of
                           None \<Rightarrow> [] | Some b \<Rightarrow> [(''pullImage'', JBool b)])
           in request pf client ''PUT''
                (''/stacks/'' @ show_int stackId @ ''?endpointId='' @ show_int envId)
                (Some (JObject body)) 30000 False net))"

definition redeployStack ::
  "'c platform \<Rightarrow> PortainerClient \<Rightarrow> int \<Rightarrow> int \<Rightarrow> bool option
     \<Rightarrow> fetch_call list \<Rightarrow> (exn + unit) \<times> fetch_call list" where
  "redeployStack pf client stackId envId pullImage_arg net =
     (case checkWriteEnabled client of
        Inl e \<Rightarrow> (Inl e, net)
      | Inr _ \<Rightarrow>
          (let pull = (case pullImage_arg of None \<Rightarrow> False | Some b \<Rightarrow> b)
           in void_result (request pf client ''PUT''
                (''/stacks/'' @ show_int stackId @ ''/git/redeploy?endpointId='' @ show_int envId)
                (Some (JObject [(''pullImage'', JBool pull)])) 30000 False net)))"

definition deleteStack ::
  "'c platform \<Rightarrow> PortainerClient \<Rightarrow> int \<Rightarrow> int
     \<Rightarrow> fetch_call list \<Rightarrow> (exn + unit) \<times> fetch_call list" where
  "deleteStack pf client stackId envId net =
     (case checkWriteEnabled client of
        Inl e \<Rightarrow> (Inl e, net)
      | Inr _ \<Rightarrow>
          void_result (request pf client ''DELETE''
            (''/stacks/'' @ show_int stackId @ ''?endpointId='' @ show_int envId)
            None 30000 False net))"

fun split_colon :: "string \<Rightarrow> string list" where
  "split_colon [] = [[]]"
| "split_colon (c # cs) =
     (if c = CHR '':'' then [] # split_colon cs
      else (case split_colon cs of [] \<Rightarrow> [[c]] | p # ps \<Rightarrow> (c # p) # ps))"

definition pullImage ::
  "'c platform \<Rightarrow> PortainerClient \<Rightarrow> int \<Rightarrow> string
     \<Rightarrow> fetch_call list \<Rightarrow> (exn + unit) \<times> fetch_call list" where
  "pullImage pf client envId image' net =
     (case checkWriteEnabled client of
        Inl e \<Rightarrow> (Inl e, net)
      | Inr _ \<Rightarrow>
          (let parts = split_colon image';
               fromImage = (case parts of [] \<Rightarrow> ''undefined'' | p # _ \<Rightarrow> p);
               tag = (case parts of _ # t # _ \<Rightarrow> t | _ \<Rightarrow> ''latest'')
           in case encodeURIComponent pf fromImage of
                Inl e \<Rightarrow> (Inl (OtherError e), net)
              | Inr f \<Rightarrow>
                  (case encodeURIComponent pf tag of
                     Inl e \<Rightarrow> (Inl (OtherError e), net)
                   | Inr t \<Rightarrow>
                       void_result (request pf client ''POST''
                         (''/endpoints/'' @ show_int envId @ ''/docker/images/create?fromImage=''
                          @ f @ ''&tag='' @ t) None 30000 False net))))"

definition removeImage ::
  "'c platform \<Rightarrow> PortainerClient \<Rightarrow> int \<Rightarrow> string
     \<Rightarrow> fetch_call list \<Rightarrow> (exn + unit) \<times> fetch_call list" where
  "removeImage pf client envId imageId net =
     (case checkWriteEnabled client of
        Inl e \<Rightarrow> (Inl e, net)
      | Inr _ \<Rightarrow>
          (case encodeURIComponent pf imageId of
             Inl e \<Rightarrow> (Inl (OtherError e), net)
           | Inr i \<Rightarrow>
               void_result (request pf client ''DELETE''
                 (''/endpoints/'' @ show_int envId @ ''/docker/images/'' @ i @ ''?force=true'')
                 None 30000 False net)))"

definition createVolume ::
  "'c platform \<Rightarrow> PortainerClient \<Rightarrow> int \<Rightarrow> string
     \<Rightarrow> fetch_call list \<Rightarrow> (exn + json) \<times> fetch_call list" where
  "createVolume pf client envId name net =
     (case checkWriteEnabled client of
        Inl e \<Rightarrow> (Inl e, net)
      | Inr _ \<Rightarrow>
          request pf client ''POST''
            (''/endpoints/'' @ show_int envId @ ''/docker/volumes/create'')
            (Some (JObject [(''Name'', JString name)])) 30000 False net)"

definition removeVolume ::
  "'c platform \<Rightarrow> PortainerClient \<Rightarrow> int \<Rightarrow> string
     \<Rightarrow> fetch_call list \<Rightarrow> (exn + unit) \<times> fetch_call list" where
  "removeVolume pf client envId name net =
     (case checkWriteEnabled client of
        Inl e \<Rightarrow> (Inl e, net)
      | Inr _ \<Rightarrow>
          (case encodeURIComponent pf name of
             Inl e \<Rightarrow> (Inl (OtherError e), net)
           | Inr n \<Rightarrow>
               void_result (request pf client ''DELETE''
                 (''/endpoints/'' @ show_int envId @ ''/docker/volumes/'' @ n)
                 None 30000 False net)))"

definition createNetwork ::
  "'c platform \<Rightarrow> PortainerClient \<Rightarrow> int \<Rightarrow> string \<Rightarrow> string option
     \<Rightarrow> fetch_call list \<Rightarrow> (exn + json) \<times> fetch_call list" where
  "createNetwork pf client envId name subnet net =
     (case checkWriteEnabled client of
        Inl e \<Rightarrow> (Inl e, net)
      | Inr _ \<Rightarrow>
          (let body = [(''Name'', JString name)]
                      @ (case subnet of
                           None \<Rightarrow> []
                         | Some sn \<Rightarrow>
                             if sn \<noteq> []
                             then [(''IPAM'', JObject [(''Config'',
                                     JArray [JObject [(''Subnet'', JString sn)]])])]
                             else [])
           in request pf client ''POST''
                (''/endpoints/'' @ show_int envId @ ''/docker/networks/create'')
                (Some (JObject body)) 30000 False net))"

definition removeNetwork ::
  "'c platform \<Rightarrow> PortainerClient \<Rightarrow> int \<Rightarrow> string
     \<Rightarrow> fetch_call list \<Rightarrow> (exn + unit) \<times> fetch_call list" where
  "removeNetwork pf client envId networkId net =
     (case checkWriteEnabled client of
        Inl e \<Rightarrow> (Inl e, net)
      | Inr _ \<Rightarrow>
          void_result (request pf client ''DELETE''
            (''/endpoints/'' @ show_int envId @ ''/docker/networks/'' @ networkId)
            None 30000 False net))"

section \<open>Notions and inputs of the statements\<close>

subsection \<open>A UTF-8 decoder\<close>

text \<open>
  The theorems below hold for every decoder. To evaluate the demultiplexer on concrete
  buffers, \<open>utf8_decode\<close> models the decoder of the platform: it follows the UTF-8
  decoder of the WHATWG Encoding standard, which yields U+FFFD for every maximal
  ill-formed part of the input, and keeps a byte order mark, as
  \<^verbatim>\<open>Buffer.toString\<close> does. A decoded string is the list of its code points. The arguments of
  \<open>utf8_decoder\<close> are the code point read so far, the number of continuation bytes
  still needed, and the bounds of the next continuation byte.
\<close>

fun utf8_decoder :: "nat \<Rightarrow> nat \<Rightarrow> nat \<Rightarrow> nat \<Rightarrow> byte list \<Rightarrow> nat list" where
  "utf8_decoder cp needed lower upper [] = (if needed = 0 then [] else [0xFFFD])"
| "utf8_decoder cp needed lower upper (b # bs) =
     (let v = unat b in
      if needed = 0 then
        (if v \<le> 0x7F then v # utf8_decoder 0 0 0x80 0xBF bs
         else if 0xC2 \<le> v \<and> v \<le> 0xDF then utf8_decoder (v mod 32) 1 0x80 0xBF bs
         else if 0xE0 \<le> v \<and> v \<le> 0xEF
           then utf8_decoder (v mod 16) 2 (if v = 0xE0 then 0xA0 else 0x80)
                  (if v = 0xED then 0x9F else 0xBF) bs
         else if 0xF0 \<le> v \<and> v \<le> 0xF4
           then utf8_decoder (v mod 8) 3 (if v = 0xF0 then 0x90 else 0x80)
                  (if v = 0xF4 then 0x8F else 0xBF) bs
         else 0xFFFD # utf8_decoder 0 0 0x80 0xBF bs)
      else if v < lower \<or> upper < v then 0xFFFD # utf8_decoder 0 0 0x80 0xBF (b # bs)
      else if needed = 1 then (cp * 64 + v mod 64) # utf8_decoder 0 0 0x80 0xBF bs
      else utf8_decoder (cp * 64 + v mod 64) (needed - 1) 0x80 0xBF bs)"

definition utf8_decode :: "byte list \<Rightarrow> nat list" where
  "utf8_decode bytes = utf8_decoder 0 0 0x80 0xBF bytes"

subsection \<open>The wire format of the multiplexed log stream\<close>

text \<open>
  The frames the demultiplexer is specified on: a header of eight bytes (the stream
  type, three bytes of padding, the length of the payload as an unsigned 32-bit
  big-endian number) and then the payload.
\<close>

record frame =
  stream_type :: byte
  padding :: "byte list"
  payload :: "byte list"

definition uint32BE :: "nat \<Rightarrow> byte list" where
  "uint32BE n = [of_nat (n div 2 ^ 24), of_nat (n div 2 ^ 16), of_nat (n div 2 ^ 8), of_nat n]"

definition frame_header :: "byte \<Rightarrow> byte list \<Rightarrow> nat \<Rightarrow> byte list" where
  "frame_header tag pad n = tag # pad @ uint32BE n"

definition frame_bytes :: "frame \<Rightarrow> byte list" where
  "frame_bytes f = frame_header (stream_type f) (padding f) (length (payload f)) @ payload f"

definition complete_frame :: "frame \<Rightarrow> bool" where
  "complete_frame f \<longleftrightarrow> length (padding f) = 3 \<and> length (payload f) < 2 ^ 32"

definition first_byte_at_most_2 :: "byte list \<Rightarrow> bool" where
  "first_byte_at_most_2 buffer = (case buffer of [] \<Rightarrow> False | b # _ \<Rightarrow> b \<le> 2)"

text \<open>The text of each frame that has a payload, in wire order.\<close>

definition frame_texts :: "(byte list \<Rightarrow> 'c list) \<Rightarrow> frame list \<Rightarrow> 'c list list" where
  "frame_texts toString_utf8 frames =
     map toString_utf8 (filter (\<lambda>p. p \<noteq> []) (map payload frames))"

text \<open>
  Concrete streams: the two frames \<open>(1, "hello ")\<close> and \<open>(2, "world")\<close>, and the
  two bytes C3 A9 of the character U+00E9 sent in two frames of one byte each.
\<close>

definition hello_world_frames :: "frame list" where
  "hello_world_frames =
     [\<lparr>stream_type = 1, padding = [0, 0, 0], payload = [0x68, 0x65, 0x6C, 0x6C, 0x6F, 0x20]\<rparr>,
      \<lparr>stream_type = 2, padding = [0, 0, 0], payload = [0x77, 0x6F, 0x72, 0x6C, 0x64]\<rparr>]"

definition split_character_frames :: "frame list" where
  "split_character_frames =
     [\<lparr>stream_type = 1, padding = [0, 0, 0], payload = [0xC3]\<rparr>,
      \<lparr>stream_type = 1, padding = [0, 0, 0], payload = [0xA9]\<rparr>]"

subsection \<open>Reading the body of an error response\<close>

text \<open>
  The member \<open>key\<close> of the response body, when the body is the text of a JSON
  object that has such a member (\<open>None\<close> otherwise). Used to state which message an
  error response yields.
\<close>

definition body_field :: "'c platform \<Rightarrow> string \<Rightarrow> string \<Rightarrow> json option" where
  "body_field pf errorBody key =
     (case JSON_parse pf errorBody of
        Inr (JObject members) \<Rightarrow> map_of members key
      | _ \<Rightarrow> None)"

subsection \<open>Concrete responses\<close>

definition unauthorized_response :: response where
  "unauthorized_response =
     \<lparr>ok = False, status = 401, text_result = Inr [], arrayBuffer_result = Inr []\<rparr>"

definition server_error_body :: string where
  \<open>server_error_body = ''{"message":"Internal server error details"}''\<close>

definition server_error_response :: response where
  "server_error_response =
     \<lparr>ok = False, status = 500, text_result = Inr server_error_body,
      arrayBuffer_result = Inr []\<rparr>"

definition server_error_table :: "(string \<times> json) list" where
  "server_error_table =
     [(server_error_body, JObject [(''message'', JString ''Internal server error details'')])]"

definition html_response :: response where
  "html_response =
     \<lparr>ok = True, status = 200, text_result = Inr ''<html>'', arrayBuffer_result = Inr []\<rparr>"

definition stacks_body :: string where
  \<open>stacks_body = ''[{"Id":1,"Name":"mystack"},{"Id":2,"Name":"other"}]''\<close>

definition stacks_response :: response where
  "stacks_response =
     \<lparr>ok = True, status = 200, text_result = Inr stacks_body, arrayBuffer_result = Inr []\<rparr>"

definition stacks_table :: "(string \<times> json) list" where
  "stacks_table =
     [(stacks_body,
       JArray [JObject [(''Id'', JNumber 1), (''Name'', JString ''mystack'')],
               JObject [(''Id'', JNumber 2), (''Name'', JString ''other'')]])]"

subsection \<open>A platform for concrete runs\<close>

text \<open>
  A platform in the style of the mocks of the test suite: \<open>fetch\<close> resolves with a
  fixed response, \<open>JSON_parse\<close> knows the texts of a table and rejects every other
  text with a \<^verbatim>\<open>SyntaxError\<close>. The client is built with the write flag left out.
\<close>

definition SyntaxError :: js_error where
  "SyntaxError =
     \<lparr>instanceof_Error = True, error_name = ''SyntaxError'',
      error_string = ''SyntaxError: Unexpected token''\<rparr>"

definition JSON_parse_table :: "(string \<times> json) list \<Rightarrow> string \<Rightarrow> js_error + json" where
  "JSON_parse_table table t = (case map_of table t of None \<Rightarrow> Inl SyntaxError | Some v \<Rightarrow> Inr v)"

definition test_platform :: "response \<Rightarrow> (string \<times> json) list \<Rightarrow> nat platform" where
  "test_platform r table =
     \<lparr>fetch = (\<lambda>net call. Resolved r),
      JSON_parse = JSON_parse_table table,
      JSON_stringify = (\<lambda>v. ''{}''),
      encodeURIComponent = Inr,
      Buffer_toString = utf8_decode\<rparr>"

definition test_client :: PortainerClient where
  "test_client = new_PortainerClient ''https://portainer.example.com/'' ''test-api-key'' None"

section \<open>Properties of the log demultiplexer\<close>

subsection \<open>Reading a frame header\<close>

lemma length_uint32BE [simp]: "length (uint32BE n) = 4"
  by (simp add: uint32BE_def)

lemma unat_byte_of_nat: "unat (of_nat k :: byte) = k mod 256"
  by (simp add: unat_of_nat)

lemma be32_value:
  assumes "n < 4294967296"
  shows "n div 16777216 mod 256 * 16777216 + n div 65536 mod 256 * 65536
           + n div 256 mod 256 * 256 + n mod 256 = (n :: nat)"
proof -
  have a: "n mod 4294967296 = n div 16777216 mod 256 * 16777216 + n mod 16777216"
    using mod_mult2_eq [of n 16777216 256] by simp
  have b: "n mod 16777216 = n div 65536 mod 256 * 65536 + n mod 65536"
    using mod_mult2_eq [of n 65536 256] by simp
  have c: "n mod 65536 = n div 256 mod 256 * 256 + n mod 256"
    using mod_mult2_eq [of n 256 256] by simp
  have "n mod 4294967296 = n"
    using assms by simp
  with a b c show ?thesis
    by linarith
qed

lemma uint32BE_nth:
  "unat (uint32BE n ! 0) = n div 16777216 mod 256"
  "unat (uint32BE n ! 1) = n div 65536 mod 256"
  "unat (uint32BE n ! 2) = n div 256 mod 256"
  "unat (uint32BE n ! 3) = n mod 256"
  by (simp_all add: uint32BE_def unat_byte_of_nat)

lemma readUInt32BE_header:
  assumes "length pad = 3" and "n < 2 ^ 32"
  shows "readUInt32BE (pre @ frame_header tag pad n @ rest) (length pre + 4) = Inr n"
proof -
  obtain p1 p2 p3 where pad: "pad = [p1, p2, p3]"
    using assms(1) by (auto simp: length_Suc_conv numeral_3_eq_3)
  have nth: "\<And>k. k < 4 \<Longrightarrow>
      (pre @ frame_header tag pad n @ rest) ! (length pre + 4 + k) = uint32BE n ! k"
    by (simp add: pad frame_header_def nth_append)
  have "readUInt32BE (pre @ frame_header tag pad n @ rest) (length pre + 4)
      = Inr (unat (uint32BE n ! 0) * 2 ^ 24 + unat (uint32BE n ! 1) * 2 ^ 16
             + unat (uint32BE n ! 2) * 2 ^ 8 + unat (uint32BE n ! 3))"
    using nth [of 0] nth [of 1] nth [of 2] nth [of 3]
    by (simp add: readUInt32BE_def frame_header_def pad add.assoc)
  also have "\<dots> = Inr n"
    using be32_value [of n] assms(2) by (simp only: uint32BE_nth) simp
  finally show ?thesis .
qed

lemma length_frame_header [simp]: "length pad = 3 \<Longrightarrow> length (frame_header tag pad n) = 8"
  by (simp add: frame_header_def)

lemma length_frame_bytes:
  "complete_frame f \<Longrightarrow> length (frame_bytes f) = 8 + length (payload f)"
  by (simp add: frame_bytes_def complete_frame_def)

lemma subarray_middle:
  "subarray (pre @ mid @ rest) (length pre) (length pre + length mid) = mid"
  by (simp add: subarray_def Let_def min_def)

lemma subarray_to_end:
  "subarray (pre @ rest) (length pre) (length pre + length rest) = rest"
  by (simp add: subarray_def Let_def)

lemma loop_body_complete_frame:
  assumes "complete_frame f"
  shows "loop_body d (pre @ frame_bytes f @ rest) (length pre) chunks
       = Continue (length pre + length (frame_bytes f))
           (if payload f = [] then chunks else chunks @ [d (payload f)])"
proof -
  let ?h = "frame_header (stream_type f) (padding f) (length (payload f))"
  have pad: "length (padding f) = 3" and n: "length (payload f) < 2 ^ 32"
    using assms by (simp_all add: complete_frame_def)
  have buf: "pre @ frame_bytes f @ rest = pre @ ?h @ (payload f @ rest)"
    by (simp add: frame_bytes_def)
  have rd: "readUInt32BE (pre @ frame_bytes f @ rest) (length pre + 4) = Inr (length (payload f))"
    unfolding buf by (rule readUInt32BE_header [OF pad n])
  have sub: "subarray (pre @ frame_bytes f @ rest) (length pre + 8)
               (length pre + 8 + length (payload f)) = payload f"
    using subarray_middle [of "pre @ ?h" "payload f" rest] pad
    by (simp add: frame_bytes_def)
  show ?thesis
    using sub pad by (simp add: loop_body_def rd Let_def length_frame_bytes [OF assms])
qed

lemma while_loop_frames:
  assumes "\<forall>f \<in> set frames. complete_frame f"
  shows "while_loop d (pre @ concat (map frame_bytes frames) @ rest) (length pre) chunks
       = while_loop d (pre @ concat (map frame_bytes frames) @ rest)
           (length pre + length (concat (map frame_bytes frames))) (chunks @ frame_texts d frames)"
  using assms
proof (induction frames arbitrary: pre chunks)
  case Nil
  show ?case by (simp add: frame_texts_def)
next
  case (Cons f frames)
  let ?rest = "concat (map frame_bytes frames) @ rest"
  let ?buffer = "pre @ frame_bytes f @ ?rest"
  let ?chunks = "if payload f = [] then chunks else chunks @ [d (payload f)]"
  have f: "complete_frame f" and fs: "\<forall>f \<in> set frames. complete_frame f"
    using Cons.prems by simp_all
  have buf: "pre @ concat (map frame_bytes (f # frames)) @ rest = ?buffer"
    by simp
  have enough: "length pre + 8 \<le> length ?buffer"
    by (simp add: length_frame_bytes [OF f])
  have step: "while_loop d ?buffer (length pre) chunks
            = while_loop d ?buffer (length pre + length (frame_bytes f)) ?chunks"
    by (subst while_loop.simps) (simp only: enough if_True loop_body_complete_frame [OF f] iteration.case)
  have ih: "while_loop d ((pre @ frame_bytes f) @ ?rest) (length (pre @ frame_bytes f)) ?chunks
          = while_loop d ((pre @ frame_bytes f) @ ?rest)
              (length (pre @ frame_bytes f) + length (concat (map frame_bytes frames)))
              (?chunks @ frame_texts d frames)"
    by (rule Cons.IH [OF fs])
  have texts: "chunks @ frame_texts d (f # frames) = ?chunks @ frame_texts d frames"
    by (simp add: frame_texts_def)
  show ?case
    unfolding buf step texts using ih by (simp add: add.assoc)
qed

lemma while_loop_stop:
  "length buffer < offset + 8 \<Longrightarrow> while_loop d buffer offset chunks = Inr chunks"
  by (subst while_loop.simps) simp

lemma while_loop_no_throw: "\<exists>chunks'. while_loop d buffer offset chunks = Inr chunks'"
proof (induction d buffer offset chunks rule: while_loop.induct)
  case (1 d buffer offset chunks)
  show ?case
  proof (cases "offset + 8 \<le> length buffer")
    case False
    then show ?thesis by (subst while_loop.simps) simp
  next
    case True
    then have rd: "\<exists>n. readUInt32BE buffer (offset + 4) = Inr n"
      by (simp add: readUInt32BE_def)
    show ?thesis
    proof (cases "loop_body d buffer offset chunks")
      case (Continue offset' chunks')
      with True "1.IH" [of offset' chunks'] show ?thesis
        by (subst while_loop.simps) simp
    next
      case (Break chunks')
      with True show ?thesis by (subst while_loop.simps) simp
    next
      case (Throw e)
      with rd show ?thesis
        by (auto simp: loop_body_def Let_def split: if_splits)
    qed
  qed
qed

lemma stripDockerLogHeaders_frames:
  assumes "first_byte_at_most_2 buffer"
  shows "stripDockerLogHeaders d buffer
       = (case while_loop d buffer 0 [] of Inl e \<Rightarrow> Inl e | Inr chunks \<Rightarrow> Inr (concat chunks))"
  using assms
  by (cases buffer) (auto simp: stripDockerLogHeaders_def first_byte_at_most_2_def)

lemma stripDockerLogHeaders_complete_frames:
  assumes "\<forall>f \<in> set frames. complete_frame f"
    and "length trailing < 8"
    and "first_byte_at_most_2 (concat (map frame_bytes frames) @ trailing)"
  shows "stripDockerLogHeaders d (concat (map frame_bytes frames) @ trailing)
       = Inr (concat (frame_texts d frames))"
proof -
  let ?buffer = "concat (map frame_bytes frames) @ trailing"
  have "while_loop d ?buffer 0 []
      = while_loop d ?buffer (length (concat (map frame_bytes frames))) (frame_texts d frames)"
    using while_loop_frames [OF assms(1), of d "[]" trailing "[]"] by simp
  also have "\<dots> = Inr (frame_texts d frames)"
    using assms(2) by (intro while_loop_stop) simp
  finally show ?thesis
    by (simp add: stripDockerLogHeaders_frames [OF assms(3)])
qed

subsection \<open>The claims on the demultiplexer\<close>

text \<open>
  C2, as amended. Let the buffer start with a byte that is at most 2 and consist of
  complete frames (a header of eight bytes: stream type, three bytes of padding, the
  payload length as an unsigned 32-bit big-endian number; then the payload), followed
  by fewer than eight trailing bytes. Then the demultiplexer returns, without an error,
  the concatenation in wire order of the texts obtained by decoding the payload of each
  frame on its own. The stream types play no part, frames with an empty payload
  contribute nothing, and the trailing bytes are dropped. (The claim as written asks for
  the decoding of the concatenated payloads; that differs when the bytes of one
  character are split between two frames.)
\<close>

theorem demux_complete_frames:
  assumes "\<forall>f \<in> set frames. complete_frame f"
    and "length trailing < 8"
    and "first_byte_at_most_2 (concat (map frame_bytes frames) @ trailing)"
  shows "stripDockerLogHeaders d (concat (map frame_bytes frames) @ trailing)
       = Inr (concat (map d (filter (\<lambda>p. p \<noteq> []) (map payload frames))))"
  using stripDockerLogHeaders_complete_frames [OF assms, of d]
  by (simp add: frame_texts_def)

theorem demux_complete_frames_witness:
  "stripDockerLogHeaders utf8_decode
     ([1, 0, 0, 0, 0, 0, 0, 6, 0x68, 0x65, 0x6C, 0x6C, 0x6F, 0x20,
       2, 0, 0, 0, 0, 0, 0, 5, 0x77, 0x6F, 0x72, 0x6C, 0x64] @ [1, 0, 0])
   = Inr [0x68, 0x65, 0x6C, 0x6C, 0x6F, 0x20, 0x77, 0x6F, 0x72, 0x6C, 0x64]"
proof -
  have frames: "\<forall>f \<in> set hello_world_frames. complete_frame f"
    by (simp add: hello_world_frames_def complete_frame_def)
  have bytes: "concat (map frame_bytes hello_world_frames)
      = [1, 0, 0, 0, 0, 0, 0, 6, 0x68, 0x65, 0x6C, 0x6C, 0x6F, 0x20,
         2, 0, 0, 0, 0, 0, 0, 5, 0x77, 0x6F, 0x72, 0x6C, 0x64]"
    by (simp add: hello_world_frames_def frame_bytes_def frame_header_def uint32BE_def)
  have trailing: "length [1, 0, 0 :: byte] < 8"
    by simp
  have first: "first_byte_at_most_2 (concat (map frame_bytes hello_world_frames) @ [1, 0, 0])"
    by (simp add: bytes first_byte_at_most_2_def)
  have texts: "concat (map utf8_decode (filter (\<lambda>p. p \<noteq> []) (map payload hello_world_frames)))
      = [0x68, 0x65, 0x6C, 0x6C, 0x6F, 0x20, 0x77, 0x6F, 0x72, 0x6C, 0x64]"
    by (simp add: hello_world_frames_def utf8_decode_def)
  show ?thesis
    using demux_complete_frames [OF frames trailing first, of utf8_decode]
    unfolding bytes texts .
qed

text \<open>
  C2 as written fails: the two bytes C3 A9 of one character, sent as the payloads of two
  complete frames, are decoded frame by frame into two replacement characters U+FFFD,
  while the decoding of the concatenated payloads is the single character U+00E9.
\<close>

theorem demux_split_character:
  "complete_frame \<lparr>stream_type = 1, padding = [0, 0, 0], payload = [0xC3]\<rparr>
   \<and> complete_frame \<lparr>stream_type = 1, padding = [0, 0, 0], payload = [0xA9]\<rparr>
   \<and> concat (map frame_bytes split_character_frames)
       = [1, 0, 0, 0, 0, 0, 0, 1, 0xC3, 1, 0, 0, 0, 0, 0, 0, 1, 0xA9]
   \<and> stripDockerLogHeaders utf8_decode [1, 0, 0, 0, 0, 0, 0, 1, 0xC3, 1, 0, 0, 0, 0, 0, 0, 1, 0xA9]
       = Inr [0xFFFD, 0xFFFD]
   \<and> utf8_decode (concat (map payload split_character_frames)) = [0xE9]
   \<and> stripDockerLogHeaders utf8_decode (concat (map frame_bytes split_character_frames))
       \<noteq> Inr (utf8_decode (concat (map payload split_character_frames)))"
proof -
  have bytes: "concat (map frame_bytes split_character_frames)
      = [1, 0, 0, 0, 0, 0, 0, 1, 0xC3, 1, 0, 0, 0, 0, 0, 0, 1, 0xA9]"
    by (simp add: split_character_frames_def frame_bytes_def frame_header_def uint32BE_def)
  have frames: "\<forall>f \<in> set split_character_frames. complete_frame f"
    by (simp add: split_character_frames_def complete_frame_def)
  have first: "first_byte_at_most_2 (concat (map frame_bytes split_character_frames) @ [])"
    by (simp add: bytes first_byte_at_most_2_def)
  have "stripDockerLogHeaders utf8_decode (concat (map frame_bytes split_character_frames) @ [])
      = Inr (concat (frame_texts utf8_decode split_character_frames))"
    by (rule stripDockerLogHeaders_complete_frames [OF frames _ first]) simp
  moreover have "concat (frame_texts utf8_decode split_character_frames) = [0xFFFD, 0xFFFD]"
    by (simp add: frame_texts_def split_character_frames_def utf8_decode_def)
  ultimately have run: "stripDockerLogHeaders utf8_decode
      [1, 0, 0, 0, 0, 0, 0, 1, 0xC3, 1, 0, 0, 0, 0, 0, 0, 1, 0xA9] = Inr [0xFFFD, 0xFFFD]"
    by (simp add: bytes)
  have whole: "utf8_decode (concat (map payload split_character_frames)) = [0xE9]"
    by (simp add: split_character_frames_def utf8_decode_def)
  show ?thesis
    using run whole by (simp add: bytes complete_frame_def)
qed

text \<open>
  C6. Let the buffer start with a byte that is at most 2 and consist of at least one
  complete frame, then a header whose declared payload length is larger than the
  number of bytes that follow it. Then the demultiplexer returns, without an error, the
  texts of the complete frames followed by the decoding of all the bytes after that
  header, whatever they are: no further frame is looked for in them.
\<close>

theorem demux_truncated_frame:
  assumes "\<forall>f \<in> set frames. complete_frame f"
    and "frames \<noteq> []"
    and "length pad = 3"
    and "length rest < n"
    and "n < 2 ^ 32"
    and "first_byte_at_most_2 (concat (map frame_bytes frames) @ frame_header tag pad n @ rest)"
  shows "stripDockerLogHeaders d (concat (map frame_bytes frames) @ frame_header tag pad n @ rest)
       = Inr (concat (map d (filter (\<lambda>p. p \<noteq> []) (map payload frames))) @ d rest)"
proof -
  let ?done = "concat (map frame_bytes frames)"
  let ?buffer = "?done @ frame_header tag pad n @ rest"
  have "while_loop d ?buffer 0 [] = while_loop d ?buffer (length ?done) (frame_texts d frames)"
    using while_loop_frames [OF assms(1), of d "[]" "frame_header tag pad n @ rest" "[]"] by simp
  also have "\<dots> = Inr (frame_texts d frames @ [d rest])"
  proof -
    have rd: "readUInt32BE ?buffer (length ?done + 4) = Inr n"
      by (rule readUInt32BE_header [OF assms(3) assms(5)])
    have sub: "subarray ?buffer (length ?done + 8) (length ?buffer) = rest"
      using subarray_to_end [of "?done @ frame_header tag pad n" rest] assms(3)
      by (simp add: add.assoc)
    have "loop_body d ?buffer (length ?done) (frame_texts d frames)
        = Break (frame_texts d frames @ [d rest])"
      using assms(3) assms(4)
      by (simp only: loop_body_def rd Let_def sum.case sub) simp
    then show ?thesis
      using assms(3) by (subst while_loop.simps) simp
  qed
  finally show ?thesis
    by (simp add: stripDockerLogHeaders_frames [OF assms(6)] frame_texts_def)
qed

theorem demux_truncated_frame_witness:
  "stripDockerLogHeaders utf8_decode
     ([1, 0, 0, 0, 0, 0, 0, 6, 0x68, 0x65, 0x6C, 0x6C, 0x6F, 0x20,
       2, 0, 0, 0, 0, 0, 0, 5, 0x77, 0x6F, 0x72, 0x6C, 0x64]
      @ [2, 0, 0, 0, 0, 0, 1, 0] @ [0x21, 0x0A])
   = Inr ([0x68, 0x65, 0x6C, 0x6C, 0x6F, 0x20, 0x77, 0x6F, 0x72, 0x6C, 0x64] @ [0x21, 0x0A])"
proof -
  have frames: "\<forall>f \<in> set hello_world_frames. complete_frame f"
    by (simp add: hello_world_frames_def complete_frame_def)
  have nonempty: "hello_world_frames \<noteq> []"
    by (simp add: hello_world_frames_def)
  have bytes: "concat (map frame_bytes hello_world_frames)
      = [1, 0, 0, 0, 0, 0, 0, 6, 0x68, 0x65, 0x6C, 0x6C, 0x6F, 0x20,
         2, 0, 0, 0, 0, 0, 0, 5, 0x77, 0x6F, 0x72, 0x6C, 0x64]"
    by (simp add: hello_world_frames_def frame_bytes_def frame_header_def uint32BE_def)
  have header: "frame_header 2 [0, 0, 0] 256 = [2, 0, 0, 0, 0, 0, 1, 0]"
    by (simp add: frame_header_def uint32BE_def)
  have pad: "length [0, 0, 0 :: byte] = 3"
    by simp
  have short: "length [0x21, 0x0A :: byte] < 256"
    by simp
  have bound: "(256 :: nat) < 2 ^ 32"
    by simp
  have first: "first_byte_at_most_2
      (concat (map frame_bytes hello_world_frames) @ frame_header 2 [0, 0, 0] 256 @ [0x21, 0x0A])"
    by (simp add: bytes first_byte_at_most_2_def)
  have texts: "concat (map utf8_decode (filter (\<lambda>p. p \<noteq> []) (map payload hello_world_frames)))
      = [0x68, 0x65, 0x6C, 0x6C, 0x6F, 0x20, 0x77, 0x6F, 0x72, 0x6C, 0x64]"
    by (simp add: hello_world_frames_def utf8_decode_def)
  have rest: "utf8_decode [0x21, 0x0A] = [0x21, 0x0A]"
    by (simp add: utf8_decode_def)
  show ?thesis
    using demux_truncated_frame [OF frames nonempty pad short bound first, of utf8_decode]
    unfolding bytes texts header rest .
qed

text \<open>
  C8. On the empty buffer the demultiplexer returns the empty string, and on a buffer
  whose first byte is greater than 2 it returns the decoding of the whole buffer,
  whatever follows the first byte. Both results come from the two early returns of the
  function, which stand before the frame loop.
\<close>

theorem demux_empty_and_tty:
  "stripDockerLogHeaders d [] = Inr []
   \<and> (\<forall>firstByte rest. firstByte > 2 \<longrightarrow>
        stripDockerLogHeaders d (firstByte # rest) = Inr (d (firstByte # rest)))"
  by (simp add: stripDockerLogHeaders_def)

theorem demux_empty_and_tty_witness:
  "(0xFF :: byte) > 2
   \<and> stripDockerLogHeaders utf8_decode [0xFF, 0, 0, 0, 0, 0, 0, 1, 0x41]
       = Inr [0xFFFD, 0, 0, 0, 0, 0, 0, 1, 0x41]"
proof -
  have tty: "(0xFF :: byte) > 2"
    by simp
  have decoded: "utf8_decode [0xFF, 0, 0, 0, 0, 0, 0, 1, 0x41] = [0xFFFD, 0, 0, 0, 0, 0, 0, 1, 0x41]"
    by (simp add: utf8_decode_def)
  from demux_empty_and_tty [of utf8_decode] tty
  have "stripDockerLogHeaders utf8_decode [0xFF, 0, 0, 0, 0, 0, 0, 1, 0x41]
      = Inr (utf8_decode [0xFF, 0, 0, 0, 0, 0, 0, 1, 0x41])"
    by blast
  with tty decoded show ?thesis
    by simp
qed

text \<open>
  C10. The demultiplexer is total and never throws. The model of the loop is a
  function whose termination is proved above, with the measure
  \<open>length buffer - offset\<close>; every pass through the body that is entered with a
  whole header ahead reads that header inside the buffer and either leaves the loop or
  moves the offset forward by at least 8 without passing the end of the buffer; and for
  every buffer, of any content and length, the function returns a string.
\<close>

theorem demux_total:
  "(\<forall>offset chunks. offset + 8 \<le> length buffer \<longrightarrow>
      (\<exists>chunks'. loop_body d buffer offset chunks = Break chunks')
      \<or> (\<exists>offset' chunks'. loop_body d buffer offset chunks = Continue offset' chunks'
            \<and> offset + 8 \<le> offset' \<and> offset' \<le> length buffer))
   \<and> (\<exists>chunks. while_loop d buffer 0 [] = Inr chunks)
   \<and> (\<exists>s. stripDockerLogHeaders d buffer = Inr s)"
proof (intro conjI allI impI)
  fix offset chunks
  assume "offset + 8 \<le> length buffer"
  then show "(\<exists>chunks'. loop_body d buffer offset chunks = Break chunks')
      \<or> (\<exists>offset' chunks'. loop_body d buffer offset chunks = Continue offset' chunks'
            \<and> offset + 8 \<le> offset' \<and> offset' \<le> length buffer)"
    by (simp add: loop_body_def readUInt32BE_def Let_def)
next
  show "\<exists>chunks. while_loop d buffer 0 [] = Inr chunks"
    by (rule while_loop_no_throw)
next
  obtain chunks where "while_loop d buffer 0 [] = Inr chunks"
    using while_loop_no_throw by blast
  then show "\<exists>s. stripDockerLogHeaders d buffer = Inr s"
    by (simp add: stripDockerLogHeaders_def split: list.split)
qed

theorem demux_total_witness:
  "(0 :: nat) + 8 \<le> length [1, 0, 0, 0, 0xFF, 0xFF, 0xFF, 0xFF, 0x41 :: byte]
   \<and> loop_body utf8_decode [1, 0, 0, 0, 0xFF, 0xFF, 0xFF, 0xFF, 0x41] 0 [] = Break [[0x41]]
   \<and> (\<exists>s. stripDockerLogHeaders utf8_decode [1, 0, 0, 0, 0xFF, 0xFF, 0xFF, 0xFF, 0x41] = Inr s)"
proof -
  let ?buffer = "[1, 0, 0, 0, 0xFF, 0xFF, 0xFF, 0xFF, 0x41 :: byte]"
  have enough: "(0 :: nat) + 8 \<le> length ?buffer"
    by simp
  have pass: "loop_body utf8_decode ?buffer 0 [] = Break [[0x41]]"
    by (simp add: loop_body_def readUInt32BE_def subarray_def utf8_decode_def)
  from demux_total [of ?buffer utf8_decode]
  have "\<exists>s. stripDockerLogHeaders utf8_decode ?buffer = Inr s"
    by blast
  with enough pass show ?thesis
    by blast
qed

section \<open>Properties of the client\<close>

subsection \<open>The outcome of request\<close>

lemma request_catch_classified:
  "(\<exists>v. request_catch client timeout outcome = Inr v)
   \<or> (\<exists>e. request_catch client timeout outcome = Inl (ClientError e))"
  by (auto simp: request_catch_def split: sum.splits exn.splits)

lemma request_classified:
  "fst (request pf client method path body timeout raw net) \<noteq> Inl (OtherError e)"
  using request_catch_classified [of client timeout
      "request_try pf path raw (fetch pf net (request_call pf client method path body))"]
  by (auto simp: request_def Let_def)

lemma request_calls:
  "snd (request pf client method path body timeout raw net)
     = net @ [request_call pf client method path body]"
  by (simp add: request_def Let_def)

lemma request_catch_Inr:
  "request_catch client timeout outcome = Inr v \<longleftrightarrow> outcome = Inr v"
  by (auto simp: request_catch_def split: sum.splits exn.splits)

lemma request_try_Inr:
  "request_try pf path raw fetched = Inr v \<longleftrightarrow>
     (\<exists>r t. fetched = Resolved r \<and> ok r \<and> text_result r = Inr t
        \<and> (if t = [] then v = JObject [] else if raw then v = JString t
            else JSON_parse pf t = Inr v))"
  by (auto simp: request_try_def split: fetch_result.splits sum.splits if_splits)

lemma request_Inr:
  "fst (request pf client method path body timeout raw net) = Inr v \<longleftrightarrow>
     (\<exists>r t. fetch pf net (request_call pf client method path body) = Resolved r
        \<and> ok r \<and> text_result r = Inr t
        \<and> (if t = [] then v = JObject [] else if raw then v = JString t
            else JSON_parse pf t = Inr v))"
  by (simp add: request_def Let_def request_catch_Inr request_try_Inr)

lemma write_gate:
  "\<not> writeEnabled client \<Longrightarrow> checkWriteEnabled client =
     Inl (ClientError
           \<lparr>message = ''Write operations disabled. Set PORTAINER_WRITE_ENABLED=true to enable.'',
            code = ''WRITE_DISABLED'', statusCode = None\<rparr>)"
  by (simp add: checkWriteEnabled_def)

text \<open>
  C1. For a client whose write flag is false, each of the twelve mutating operations
  (container start, stop, restart, kill and remove; stack start and stop, create,
  update, redeploy, delete; image pull and remove; volume create and remove; network
  create and remove) throws a \<^verbatim>\<open>PortainerClientError\<close> with code
  \<^verbatim>\<open>WRITE_DISABLED\<close> and leaves the log of \<^verbatim>\<open>fetch\<close> calls as it was: no
  call is issued, whatever the arguments and the platform.
\<close>

theorem write_gate_closed:
  assumes "\<not> writeEnabled client"
  shows "\<exists>e. code e = ''WRITE_DISABLED''
    \<and> containerAction pf client envId containerId action net = (Inl (ClientError e), net)
    \<and> stackAction pf client stackId action' net = (Inl (ClientError e), net)
    \<and> createStack pf client envId name composeContent env net = (Inl (ClientError e), net)
    \<and> updateStack pf client stackId envId options net = (Inl (ClientError e), net)
    \<and> redeployStack pf client stackId envId pull net = (Inl (ClientError e), net)
    \<and> deleteStack pf client stackId envId net = (Inl (ClientError e), net)
    \<and> pullImage pf client envId image' net = (Inl (ClientError e), net)
    \<and> removeImage pf client envId imageId net = (Inl (ClientError e), net)
    \<and> createVolume pf client envId name net = (Inl (ClientError e), net)
    \<and> removeVolume pf client envId name net = (Inl (ClientError e), net)
    \<and> createNetwork pf client envId name subnet net = (Inl (ClientError e), net)
    \<and> removeNetwork pf client envId networkId net = (Inl (ClientError e), net)"
  by (rule exI [of _ "\<lparr>message = ''Write operations disabled. Set PORTAINER_WRITE_ENABLED=true to enable.'',
            code = ''WRITE_DISABLED'', statusCode = None\<rparr>"])
     (simp add: write_gate [OF assms] containerAction_def stackAction_def createStack_def
        updateStack_def redeployStack_def deleteStack_def pullImage_def removeImage_def
        createVolume_def removeVolume_def createNetwork_def removeNetwork_def)

theorem write_gate_closed_witness:
  "\<not> writeEnabled test_client
   \<and> (\<exists>e. code e = ''WRITE_DISABLED''
    \<and> containerAction (test_platform html_response []) test_client 1 ''abc123'' Stop []
        = (Inl (ClientError e), [])
    \<and> stackAction (test_platform html_response []) test_client 7 StopStack []
        = (Inl (ClientError e), [])
    \<and> createStack (test_platform html_response []) test_client 1 ''test'' ''version: 3'' None []
        = (Inl (ClientError e), [])
    \<and> updateStack (test_platform html_response []) test_client 7 1
          \<lparr>opt_composeContent = None, opt_env = None, opt_prune = Some True,
           opt_pullImage = None\<rparr> []
        = (Inl (ClientError e), [])
    \<and> redeployStack (test_platform html_response []) test_client 7 1 None []
        = (Inl (ClientError e), [])
    \<and> deleteStack (test_platform html_response []) test_client 7 1 [] = (Inl (ClientError e), [])
    \<and> pullImage (test_platform html_response []) test_client 1 ''nginx:latest'' []
        = (Inl (ClientError e), [])
    \<and> removeImage (test_platform html_response []) test_client 1 ''sha256:abc'' []
        = (Inl (ClientError e), [])
    \<and> createVolume (test_platform html_response []) test_client 1 ''test'' []
        = (Inl (ClientError e), [])
    \<and> removeVolume (test_platform html_response []) test_client 1 ''test'' []
        = (Inl (ClientError e), [])
    \<and> createNetwork (test_platform html_response []) test_client 1 ''test'' None []
        = (Inl (ClientError e), [])
    \<and> removeNetwork (test_platform html_response []) test_client 1 ''net123'' []
        = (Inl (ClientError e), []))"
proof -
  have closed: "\<not> writeEnabled test_client"
    by (simp add: test_client_def new_PortainerClient_def)
  show ?thesis
    by (rule conjI [OF closed write_gate_closed [OF closed]])
qed

lemma request_not_ok:
  assumes "fetch pf net (request_call pf client method path body) = Resolved r"
    and "\<not> ok r"
    and "text_result r = Inr errorBody"
    and "new_Error_message (request_error_message pf (status r) path errorBody) = Inr msg"
  shows "fst (request pf client method path body timeout raw net)
       = Inl (ClientError \<lparr>message = msg, code = ''HTTP_'' @ show_nat (status r),
                           statusCode = Some (status r)\<rparr>)"
  using assms by (simp add: request_def Let_def request_try_def request_catch_def)

lemma request_error_message_fixed:
  "request_error_message pf 401 path errorBody = Some (JString ''Invalid API key or expired token'')"
  "request_error_message pf 403 path errorBody
     = Some (JString ''Insufficient permissions for this operation'')"
  "request_error_message pf 404 path errorBody = Some (JString (''Resource not found: '' @ path))"
  by (simp_all add: request_error_message_def)

lemma request_error_message_other:
  assumes "s \<noteq> 401" and "s \<noteq> 403" and "s \<noteq> 404"
  shows "request_error_message pf s path errorBody
       = (if ToBoolean (body_field pf errorBody ''message'')
          then body_field pf errorBody ''message''
          else if ToBoolean (body_field pf errorBody ''details'')
          then body_field pf errorBody ''details''
          else Some (JString (''Portainer API error: '' @ show_nat s)))"
proof (cases "JSON_parse pf errorBody")
  case (Inl x)
  with assms show ?thesis
    by (simp add: request_error_message_def body_field_def)
next
  case (Inr parsed)
  with assms show ?thesis
    by (cases parsed) (simp_all add: request_error_message_def body_field_def)
qed

lemma logs_not_ok:
  assumes "fetch pf net (logs_call client envId containerId tail_arg) = Resolved r"
    and "\<not> ok r"
  shows "fst (getContainerLogs pf client envId containerId tail_arg net)
       = Inl (ClientError \<lparr>message = ''Failed to get logs: '' @ show_nat (status r),
                           code = ''HTTP_'' @ show_nat (status r),
                           statusCode = Some (status r)\<rparr>)"
  using assms by (simp add: getContainerLogs_def Let_def logs_try_def logs_catch_def)

subsection \<open>Classification of error responses\<close>

text \<open>
  C3, as amended. When \<open>request\<close> receives a response that is not \<^verbatim>\<open>ok\<close> and
  whose body can be read, it throws a \<^verbatim>\<open>PortainerClientError\<close> with code
  \<^verbatim>\<open>HTTP_<status>\<close> and that status: for 401, 403 and 404 with the fixed messages
  (the one for 404 ends with the request path); for another status with the text of the
  member \<^verbatim>\<open>message\<close> of the body when that member is truthy, else of the member
  \<^verbatim>\<open>details\<close> when that one is truthy, else with the fallback
  \<^verbatim>\<open>Portainer API error: <status>\<close> (also when the body is not a JSON object).
  \<open>getContainerLogs\<close> throws the same code and status on a response that is not
  \<^verbatim>\<open>ok\<close>, but its message is always \<^verbatim>\<open>Failed to get logs: <status>\<close>: the
  fixed mapping and the body play no part there.
\<close>

theorem http_error_classification:
  "(fetch pf net (request_call pf client method path body) = Resolved r
      \<and> \<not> ok r \<and> text_result r = Inr errorBody \<longrightarrow>
      (status r = 401 \<longrightarrow>
         fst (request pf client method path body timeout raw net)
           = Inl (ClientError \<lparr>message = ''Invalid API key or expired token'',
                               code = ''HTTP_401'', statusCode = Some 401\<rparr>))
      \<and> (status r = 403 \<longrightarrow>
         fst (request pf client method path body timeout raw net)
           = Inl (ClientError \<lparr>message = ''Insufficient permissions for this operation'',
                               code = ''HTTP_403'', statusCode = Some 403\<rparr>))
      \<and> (status r = 404 \<longrightarrow>
         fst (request pf client method path body timeout raw net)
           = Inl (ClientError \<lparr>message = ''Resource not found: '' @ path,
                               code = ''HTTP_404'', statusCode = Some 404\<rparr>))
      \<and> (status r \<noteq> 401 \<and> status r \<noteq> 403 \<and> status r \<noteq> 404 \<longrightarrow>
           (\<forall>v m. body_field pf errorBody ''message'' = Some v \<and> ToBoolean (Some v)
                    \<and> ToString v = Inr m \<longrightarrow>
              fst (request pf client method path body timeout raw net)
                = Inl (ClientError \<lparr>message = m, code = ''HTTP_'' @ show_nat (status r),
                                    statusCode = Some (status r)\<rparr>))
           \<and> (\<forall>v m. \<not> ToBoolean (body_field pf errorBody ''message'')
                    \<and> body_field pf errorBody ''details'' = Some v \<and> ToBoolean (Some v)
                    \<and> ToString v = Inr m \<longrightarrow>
              fst (request pf client method path body timeout raw net)
                = Inl (ClientError \<lparr>message = m, code = ''HTTP_'' @ show_nat (status r),
                                    statusCode = Some (status r)\<rparr>))
           \<and> (\<not> ToBoolean (body_field pf errorBody ''message'')
                \<and> \<not> ToBoolean (body_field pf errorBody ''details'') \<longrightarrow>
              fst (request pf client method path body timeout raw net)
                = Inl (ClientError \<lparr>message = ''Portainer API error: '' @ show_nat (status r),
                                    code = ''HTTP_'' @ show_nat (status r),
                                    statusCode = Some (status r)\<rparr>))))
   \<and> (fetch pf net' (logs_call client envId containerId tail_arg) = Resolved r' \<and> \<not> ok r' \<longrightarrow>
        fst (getContainerLogs pf client envId containerId tail_arg net')
          = Inl (ClientError \<lparr>message = ''Failed to get logs: '' @ show_nat (status r'),
                              code = ''HTTP_'' @ show_nat (status r'),
                              statusCode = Some (status r')\<rparr>))"
proof (intro conjI impI allI; (elim conjE)?)
  assume h: "fetch pf net (request_call pf client method path body) = Resolved r"
    "\<not> ok r" "text_result r = Inr errorBody"
  note err = request_not_ok [OF h, of _ timeout raw]
  {
    assume "status r = 401"
    then show "fst (request pf client method path body timeout raw net)
        = Inl (ClientError \<lparr>message = ''Invalid API key or expired token'',
                            code = ''HTTP_401'', statusCode = Some 401\<rparr>)"
      using err [of "''Invalid API key or expired token''"]
      by (simp add: request_error_message_fixed new_Error_message_def show_nat.simps)
  }
  {
    assume "status r = 403"
    then show "fst (request pf client method path body timeout raw net)
        = Inl (ClientError \<lparr>message = ''Insufficient permissions for this operation'',
                            code = ''HTTP_403'', statusCode = Some 403\<rparr>)"
      using err [of "''Insufficient permissions for this operation''"]
      by (simp add: request_error_message_fixed new_Error_message_def show_nat.simps)
  }
  {
    assume "status r = 404"
    then show "fst (request pf client method path body timeout raw net)
        = Inl (ClientError \<lparr>message = ''Resource not found: '' @ path,
                            code = ''HTTP_404'', statusCode = Some 404\<rparr>)"
      using err [of "''Resource not found: '' @ path"]
      by (simp add: request_error_message_fixed new_Error_message_def show_nat.simps)
  }
  {
    assume s: "status r \<noteq> 401" "status r \<noteq> 403" "status r \<noteq> 404"
    note other = request_error_message_other [OF s, of pf path errorBody]
    {
      fix v m
      assume "body_field pf errorBody ''message'' = Some v" "ToBoolean (Some v)" "ToString v = Inr m"
      then show "fst (request pf client method path body timeout raw net)
          = Inl (ClientError \<lparr>message = m, code = ''HTTP_'' @ show_nat (status r),
                              statusCode = Some (status r)\<rparr>)"
        by (intro err) (simp add: other new_Error_message_def)
    }
    {
      fix v m
      assume "\<not> ToBoolean (body_field pf errorBody ''message'')"
        "body_field pf errorBody ''details'' = Some v" "ToBoolean (Some v)" "ToString v = Inr m"
      then show "fst (request pf client method path body timeout raw net)
          = Inl (ClientError \<lparr>message = m, code = ''HTTP_'' @ show_nat (status r),
                              statusCode = Some (status r)\<rparr>)"
        by (intro err) (simp add: other new_Error_message_def)
    }
    {
      assume "\<not> ToBoolean (body_field pf errorBody ''message'')"
        "\<not> ToBoolean (body_field pf errorBody ''details'')"
      then show "fst (request pf client method path body timeout raw net)
          = Inl (ClientError \<lparr>message = ''Portainer API error: '' @ show_nat (status r),
                              code = ''HTTP_'' @ show_nat (status r),
                              statusCode = Some (status r)\<rparr>)"
        by (intro err) (simp add: other new_Error_message_def)
    }
  }
next
  assume "fetch pf net' (logs_call client envId containerId tail_arg) = Resolved r'" "\<not> ok r'"
  then show "fst (getContainerLogs pf client envId containerId tail_arg net')
      = Inl (ClientError \<lparr>message = ''Failed to get logs: '' @ show_nat (status r'),
                          code = ''HTTP_'' @ show_nat (status r'),
                          statusCode = Some (status r')\<rparr>)"
    by (rule logs_not_ok)
qed

theorem http_error_classification_witness:
  "fetch (test_platform server_error_response server_error_table) []
       (request_call (test_platform server_error_response server_error_table) test_client
          ''GET'' ''/endpoints'' None)
     = Resolved server_error_response
   \<and> \<not> ok server_error_response
   \<and> text_result server_error_response = Inr server_error_body
   \<and> status server_error_response = 500
   \<and> body_field (test_platform server_error_response server_error_table) server_error_body
        ''message'' = Some (JString ''Internal server error details'')
   \<and> fst (request (test_platform server_error_response server_error_table) test_client
            ''GET'' ''/endpoints'' None 30000 False [])
       = Inl (ClientError \<lparr>message = ''Internal server error details'', code = ''HTTP_500'',
                           statusCode = Some 500\<rparr>)"
proof -
  let ?pf = "test_platform server_error_response server_error_table"
  have h1: "fetch ?pf [] (request_call ?pf test_client ''GET'' ''/endpoints'' None)
      = Resolved server_error_response"
    by (simp add: test_platform_def)
  have h2: "\<not> ok server_error_response"
    and h3: "text_result server_error_response = Inr server_error_body"
    and h4: "status server_error_response = 500"
    by (simp_all add: server_error_response_def)
  have h5: "body_field ?pf server_error_body ''message''
      = Some (JString ''Internal server error details'')"
    by (simp add: body_field_def test_platform_def JSON_parse_table_def server_error_table_def)
  have h6: "ToBoolean (Some (JString ''Internal server error details''))"
    and h7: "ToString (JString ''Internal server error details'')
      = Inr ''Internal server error details''"
    by simp_all
  have h8: "status server_error_response \<noteq> 401 \<and> status server_error_response \<noteq> 403
      \<and> status server_error_response \<noteq> 404"
    by (simp add: h4)
  from http_error_classification [of ?pf "[]" test_client "''GET''" "''/endpoints''" None
      server_error_response server_error_body 30000 False]
    h1 h2 h3 h5 h6 h7 h8
  have "fst (request ?pf test_client ''GET'' ''/endpoints'' None 30000 False [])
      = Inl (ClientError \<lparr>message = ''Internal server error details'',
                          code = ''HTTP_'' @ show_nat (status server_error_response),
                          statusCode = Some (status server_error_response)\<rparr>)"
    by blast
  then have "fst (request ?pf test_client ''GET'' ''/endpoints'' None 30000 False [])
      = Inl (ClientError \<lparr>message = ''Internal server error details'', code = ''HTTP_500'',
                          statusCode = Some 500\<rparr>)"
    by (simp add: h4 show_nat.simps)
  with h1 h2 h3 h4 h5 show ?thesis
    by blast
qed

text \<open>
  C3 as written fails for the log fetch: on a response with status 401,
  \<open>getContainerLogs\<close> throws code \<^verbatim>\<open>HTTP_401\<close> with the message
  \<^verbatim>\<open>Failed to get logs: 401\<close>, while \<open>request\<close> on the same response throws the
  message \<^verbatim>\<open>Invalid API key or expired token\<close>.
\<close>

theorem logs_error_message_differs:
  "\<not> ok unauthorized_response
   \<and> status unauthorized_response = 401
   \<and> fetch (test_platform unauthorized_response []) [] (logs_call test_client 1 ''abc123'' None)
       = Resolved unauthorized_response
   \<and> fst (getContainerLogs (test_platform unauthorized_response []) test_client 1 ''abc123'' None [])
       = Inl (ClientError \<lparr>message = ''Failed to get logs: 401'', code = ''HTTP_401'',
                           statusCode = Some 401\<rparr>)
   \<and> fst (request (test_platform unauthorized_response []) test_client ''GET'' ''/endpoints''
            None 30000 False [])
       = Inl (ClientError \<lparr>message = ''Invalid API key or expired token'', code = ''HTTP_401'',
                           statusCode = Some 401\<rparr>)"
proof -
  let ?pf = "test_platform unauthorized_response []"
  have r: "\<not> ok unauthorized_response" "status unauthorized_response = 401"
    "text_result unauthorized_response = Inr []"
    by (simp_all add: unauthorized_response_def)
  have f: "fetch ?pf [] (logs_call test_client 1 ''abc123'' None) = Resolved unauthorized_response"
    and g: "fetch ?pf [] (request_call ?pf test_client ''GET'' ''/endpoints'' None)
      = Resolved unauthorized_response"
    by (simp_all add: test_platform_def)
  have logs: "fst (getContainerLogs ?pf test_client 1 ''abc123'' None [])
      = Inl (ClientError \<lparr>message = ''Failed to get logs: 401'', code = ''HTTP_401'',
                          statusCode = Some 401\<rparr>)"
    using logs_not_ok [OF f r(1)] by (simp add: r(2) show_nat.simps)
  have msg: "new_Error_message (request_error_message ?pf (status unauthorized_response)
      ''/endpoints'' []) = Inr ''Invalid API key or expired token''"
    by (simp add: r(2) request_error_message_fixed new_Error_message_def)
  have req: "fst (request ?pf test_client ''GET'' ''/endpoints'' None 30000 False [])
      = Inl (ClientError \<lparr>message = ''Invalid API key or expired token'', code = ''HTTP_401'',
                          statusCode = Some 401\<rparr>)"
    using request_not_ok [OF g r(1) r(3) msg, of 30000 False] by (simp add: r(2) show_nat.simps)
  show ?thesis
    using r f logs req by simp
qed

subsection \<open>A success response that is not JSON\<close>

text \<open>
  C4, as amended. When the remote answers with a success status and a body that is
  not empty and that \<^verbatim>\<open>JSON.parse\<close> rejects with a \<^verbatim>\<open>SyntaxError\<close>, and raw
  mode is off, the exception is caught by the \<^verbatim>\<open>catch\<close> block of \<open>request\<close>
  itself, and the caller receives a \<^verbatim>\<open>PortainerClientError\<close> with code
  \<^verbatim>\<open>CONNECTION_ERROR\<close> whose message names the base address and the exception.
\<close>

theorem request_parse_failure:
  assumes "fetch pf net (request_call pf client method path body) = Resolved r"
    and "ok r"
    and "text_result r = Inr t"
    and "t \<noteq> []"
    and "JSON_parse pf t = Inl x"
    and "error_name x = ''SyntaxError''"
  shows "request pf client method path body timeout False net
       = (Inl (ClientError
                \<lparr>message = ''Cannot connect to Portainer at '' @ baseUrl client @ '': ''
                            @ error_string x,
                 code = ''CONNECTION_ERROR'', statusCode = None\<rparr>),
          net @ [request_call pf client method path body])"
  using assms by (simp add: request_def Let_def request_try_def request_catch_def)

theorem request_parse_failure_witness:
  "fetch (test_platform html_response []) []
       (request_call (test_platform html_response []) test_client ''GET'' ''/endpoints'' None)
     = Resolved html_response
   \<and> ok html_response
   \<and> text_result html_response = Inr ''<html>''
   \<and> JSON_parse (test_platform html_response []) ''<html>'' = Inl SyntaxError
   \<and> request (test_platform html_response []) test_client ''GET'' ''/endpoints'' None 30000 False []
       = (Inl (ClientError
                \<lparr>message = ''Cannot connect to Portainer at https://portainer.example.com: SyntaxError: Unexpected token'',
                 code = ''CONNECTION_ERROR'', statusCode = None\<rparr>),
          [\<lparr>call_url = ''https://portainer.example.com/api/endpoints'', call_method = ''GET'',
            call_headers = [(''X-API-Key'', ''test-api-key''),
                            (''Content-Type'', ''application/json'')],
            call_body = None\<rparr>])"
proof -
  let ?pf = "test_platform html_response []"
  have h1: "fetch ?pf [] (request_call ?pf test_client ''GET'' ''/endpoints'' None)
      = Resolved html_response"
    by (simp add: test_platform_def)
  have h2: "ok html_response" and h3: "text_result html_response = Inr ''<html>''"
    by (simp_all add: html_response_def)
  have h4: "''<html>'' \<noteq> []"
    by simp
  have h5: "JSON_parse ?pf ''<html>'' = Inl SyntaxError"
    by (simp add: test_platform_def JSON_parse_table_def)
  have h6: "error_name SyntaxError = ''SyntaxError''"
    by (simp add: SyntaxError_def)
  have call: "request_call ?pf test_client ''GET'' ''/endpoints'' None
      = \<lparr>call_url = ''https://portainer.example.com/api/endpoints'', call_method = ''GET'',
         call_headers = [(''X-API-Key'', ''test-api-key''),
                         (''Content-Type'', ''application/json'')],
         call_body = None\<rparr>"
    by (simp add: request_call_def test_client_def new_PortainerClient_def)
  have base: "baseUrl test_client = ''https://portainer.example.com''"
    by (simp add: test_client_def new_PortainerClient_def)
  have "request ?pf test_client ''GET'' ''/endpoints'' None 30000 False []
      = (Inl (ClientError
               \<lparr>message = ''Cannot connect to Portainer at '' @ baseUrl test_client @ '': ''
                           @ error_string SyntaxError,
                code = ''CONNECTION_ERROR'', statusCode = None\<rparr>),
         [] @ [request_call ?pf test_client ''GET'' ''/endpoints'' None])"
    by (rule request_parse_failure [OF h1 h2 h3 h4 h5 h6])
  then have "request ?pf test_client ''GET'' ''/endpoints'' None 30000 False []
      = (Inl (ClientError
                \<lparr>message = ''Cannot connect to Portainer at https://portainer.example.com: SyntaxError: Unexpected token'',
                 code = ''CONNECTION_ERROR'', statusCode = None\<rparr>),
          [\<lparr>call_url = ''https://portainer.example.com/api/endpoints'', call_method = ''GET'',
            call_headers = [(''X-API-Key'', ''test-api-key''),
                            (''Content-Type'', ''application/json'')],
            call_body = None\<rparr>])"
    by (simp add: call base SyntaxError_def)
  with h1 h2 h3 h5 show ?thesis
    by blast
qed

text \<open>
  C4 as written fails: there is no platform, client, request and response for which
  \<open>request\<close> throws a value that is not a \<^verbatim>\<open>PortainerClientError\<close>.
\<close>

theorem request_never_unclassified:
  "\<not> (\<exists>(pf :: nat platform) client method path body timeout raw net e.
        fst (request pf client method path body timeout raw net) = Inl (OtherError e))"
  by (simp add: request_classified)

lemma request_rejected:
  assumes "fetch pf net (request_call pf client method path body) = Rejected x"
  shows "\<exists>e. fst (request pf client method path body timeout raw net) = Inl (ClientError e)
           \<and> (code e = ''TIMEOUT'' \<or> code e = ''CONNECTION_ERROR'')"
  using assms by (simp add: request_def Let_def request_try_def request_catch_def)

lemma request_unreadable:
  assumes "fetch pf net (request_call pf client method path body) = Resolved r"
    and "text_result r = Inl x"
  shows "\<exists>e. fst (request pf client method path body timeout raw net) = Inl (ClientError e)
           \<and> (code e = ''TIMEOUT'' \<or> code e = ''CONNECTION_ERROR'')"
  using assms by (simp add: request_def Let_def request_try_def request_catch_def)

lemma request_undecodable:
  assumes "fetch pf net (request_call pf client method path body) = Resolved r"
    and "ok r" and "text_result r = Inr t" and "t \<noteq> []" and "\<not> raw"
    and "JSON_parse pf t = Inl x"
  shows "\<exists>e. fst (request pf client method path body timeout raw net) = Inl (ClientError e)
           \<and> (code e = ''TIMEOUT'' \<or> code e = ''CONNECTION_ERROR'')"
  using assms by (simp add: request_def Let_def request_try_def request_catch_def)

lemma request_error_or_value:
  "(\<exists>v. fst (request pf client method path body timeout raw net) = Inr v)
   \<or> (\<exists>e. fst (request pf client method path body timeout raw net) = Inl (ClientError e))"
  using request_catch_classified [of client timeout
      "request_try pf path raw (fetch pf net (request_call pf client method path body))"]
  by (simp add: request_def Let_def)

lemma request_not_ok_error:
  assumes "fetch pf net (request_call pf client method path body) = Resolved r"
    and "\<not> ok r"
  shows "\<exists>e. fst (request pf client method path body timeout raw net) = Inl (ClientError e)"
proof -
  have "\<And>v. fst (request pf client method path body timeout raw net) \<noteq> Inr v"
    using assms by (auto simp: request_Inr)
  with request_error_or_value [of pf client "method" "path" body timeout raw net]
  show ?thesis by blast
qed

text \<open>
  C5. Every call of \<open>request\<close> either returns a value or throws a
  \<^verbatim>\<open>PortainerClientError\<close>, and issues exactly one \<^verbatim>\<open>fetch\<close> call. A value
  is returned only when \<^verbatim>\<open>fetch\<close> resolved with an \<^verbatim>\<open>ok\<close> response whose
  body could be read, and then it is the decoded body: the empty object for an empty
  body, the text itself in raw mode, the result of \<^verbatim>\<open>JSON.parse\<close> otherwise. Each
  failure ends in a thrown \<^verbatim>\<open>PortainerClientError\<close>: a rejected \<^verbatim>\<open>fetch\<close>
  (abort or network failure), a response that is not \<^verbatim>\<open>ok\<close>, a body that cannot be
  read, a body that cannot be parsed. The static type \<^verbatim>\<open>T\<close> of the value is erased
  at run time and is no part of the statement.
\<close>

theorem request_outcome:
  "((\<exists>v. fst (request pf client method path body timeout raw net) = Inr v)
      \<or> (\<exists>e. fst (request pf client method path body timeout raw net) = Inl (ClientError e)))
   \<and> (\<forall>v. fst (request pf client method path body timeout raw net) = Inr v \<longrightarrow>
         (\<exists>r t. fetch pf net (request_call pf client method path body) = Resolved r
            \<and> ok r \<and> text_result r = Inr t
            \<and> (if t = [] then v = JObject [] else if raw then v = JString t
                else JSON_parse pf t = Inr v)))
   \<and> (\<forall>x. fetch pf net (request_call pf client method path body) = Rejected x \<longrightarrow>
         (\<exists>e. fst (request pf client method path body timeout raw net) = Inl (ClientError e)
            \<and> (code e = ''TIMEOUT'' \<or> code e = ''CONNECTION_ERROR'')))
   \<and> (\<forall>r. fetch pf net (request_call pf client method path body) = Resolved r \<and> \<not> ok r \<longrightarrow>
         (\<exists>e. fst (request pf client method path body timeout raw net) = Inl (ClientError e)))
   \<and> (\<forall>r x. fetch pf net (request_call pf client method path body) = Resolved r
            \<and> text_result r = Inl x \<longrightarrow>
         (\<exists>e. fst (request pf client method path body timeout raw net) = Inl (ClientError e)
            \<and> (code e = ''TIMEOUT'' \<or> code e = ''CONNECTION_ERROR'')))
   \<and> (\<forall>r t x. fetch pf net (request_call pf client method path body) = Resolved r
            \<and> ok r \<and> text_result r = Inr t \<and> t \<noteq> [] \<and> \<not> raw \<and> JSON_parse pf t = Inl x \<longrightarrow>
         (\<exists>e. fst (request pf client method path body timeout raw net) = Inl (ClientError e)
            \<and> (code e = ''TIMEOUT'' \<or> code e = ''CONNECTION_ERROR'')))
   \<and> snd (request pf client method path body timeout raw net)
       = net @ [request_call pf client method path body]"
proof (intro conjI allI impI; (elim conjE)?)
  show "(\<exists>v. fst (request pf client method path body timeout raw net) = Inr v)
      \<or> (\<exists>e. fst (request pf client method path body timeout raw net) = Inl (ClientError e))"
    by (rule request_error_or_value)
next
  fix v
  assume "fst (request pf client method path body timeout raw net) = Inr v"
  then show "\<exists>r t. fetch pf net (request_call pf client method path body) = Resolved r
      \<and> ok r \<and> text_result r = Inr t
      \<and> (if t = [] then v = JObject [] else if raw then v = JString t
          else JSON_parse pf t = Inr v)"
    by (simp add: request_Inr)
next
  fix x
  assume "fetch pf net (request_call pf client method path body) = Rejected x"
  then show "\<exists>e. fst (request pf client method path body timeout raw net) = Inl (ClientError e)
      \<and> (code e = ''TIMEOUT'' \<or> code e = ''CONNECTION_ERROR'')"
    by (rule request_rejected)
next
  fix r
  assume "fetch pf net (request_call pf client method path body) = Resolved r" "\<not> ok r"
  then show "\<exists>e. fst (request pf client method path body timeout raw net) = Inl (ClientError e)"
    by (rule request_not_ok_error)
next
  fix r x
  assume "fetch pf net (request_call pf client method path body) = Resolved r"
    "text_result r = Inl x"
  then show "\<exists>e. fst (request pf client method path body timeout raw net) = Inl (ClientError e)
      \<and> (code e = ''TIMEOUT'' \<or> code e = ''CONNECTION_ERROR'')"
    by (rule request_unreadable)
next
  fix r t x
  assume "fetch pf net (request_call pf client method path body) = Resolved r"
    "ok r" "text_result r = Inr t" "t \<noteq> []" "\<not> raw" "JSON_parse pf t = Inl x"
  then show "\<exists>e. fst (request pf client method path body timeout raw net) = Inl (ClientError e)
      \<and> (code e = ''TIMEOUT'' \<or> code e = ''CONNECTION_ERROR'')"
    by (rule request_undecodable)
next
  show "snd (request pf client method path body timeout raw net)
      = net @ [request_call pf client method path body]"
    by (rule request_calls)
qed

theorem request_outcome_witness:
  "fetch (test_platform unauthorized_response []) []
       (request_call (test_platform unauthorized_response []) test_client ''GET'' ''/stacks'' None)
     = Resolved unauthorized_response
   \<and> \<not> ok unauthorized_response
   \<and> (\<exists>e. fst (request (test_platform unauthorized_response []) test_client ''GET'' ''/stacks''
                  None 30000 False []) = Inl (ClientError e))
   \<and> snd (request (test_platform unauthorized_response []) test_client ''GET'' ''/stacks''
            None 30000 False [])
       = [request_call (test_platform unauthorized_response []) test_client ''GET'' ''/stacks''
            None]"
proof -
  let ?pf = "test_platform unauthorized_response []"
  have h1: "fetch ?pf [] (request_call ?pf test_client ''GET'' ''/stacks'' None)
      = Resolved unauthorized_response"
    by (simp add: test_platform_def)
  have h2: "\<not> ok unauthorized_response"
    by (simp add: unauthorized_response_def)
  from request_outcome [of ?pf test_client "''GET''" "''/stacks''" None 30000 False "[]"] h1 h2
  have "(\<exists>e. fst (request ?pf test_client ''GET'' ''/stacks'' None 30000 False [])
            = Inl (ClientError e))
      \<and> snd (request ?pf test_client ''GET'' ''/stacks'' None 30000 False [])
          = [] @ [request_call ?pf test_client ''GET'' ''/stacks'' None]"
    by blast
  with h1 h2 show ?thesis
    by simp
qed

subsection \<open>The tail of the log request\<close>

text \<open>
  C7. \<open>getContainerLogs\<close> issues exactly one call, whose address ends with
  \<^verbatim>\<open>tail=\<close> and the decimal form of \<open>clampedTail\<close> of the argument (100 when the
  argument is left out); and \<open>clampedTail t\<close> is \<open>t\<close> clamped to the range from 1 to
  10000: 1 below the range, 10000 above it, \<open>t\<close> itself inside it, 100 for the
  default.
\<close>

theorem logs_tail_clamped:
  "snd (getContainerLogs pf client envId containerId tail_arg net)
     = net @ [logs_call client envId containerId tail_arg]
   \<and> call_url (logs_call client envId containerId tail_arg)
       = baseUrl client @ ''/api/endpoints/'' @ show_int envId @ ''/docker/containers/''
         @ containerId @ ''/logs?stdout=true&stderr=true&tail=''
         @ show_int (clampedTail (case tail_arg of None \<Rightarrow> 100 | Some t \<Rightarrow> t))
   \<and> clampedTail t = max 1 (min t 10000)
   \<and> (t < 1 \<longrightarrow> clampedTail t = 1)
   \<and> (10000 < t \<longrightarrow> clampedTail t = 10000)
   \<and> (1 \<le> t \<and> t \<le> 10000 \<longrightarrow> clampedTail t = t)
   \<and> clampedTail 100 = 100"
  by (simp add: getContainerLogs_def logs_call_def Let_def clampedTail_def)

theorem logs_tail_clamped_witness:
  "(10000 :: int) < 50000 \<and> clampedTail 50000 = 10000
   \<and> (- 5 :: int) < 1 \<and> clampedTail (- 5) = 1
   \<and> call_url (logs_call test_client 1 ''abc123'' (Some 50000))
       = ''https://portainer.example.com/api/endpoints/1/docker/containers/abc123/logs?stdout=true&stderr=true&tail=10000''"
proof -
  have big: "(10000 :: int) < 50000" and small: "(- 5 :: int) < 1"
    by simp_all
  note inst = logs_tail_clamped [where client = test_client and envId = 1
      and containerId = "''abc123''" and tail_arg = "Some 50000"]
  from inst [where t = 50000] big have a: "clampedTail 50000 = 10000"
    by blast
  from inst [where t = "- 5"] small have b: "clampedTail (- 5) = 1"
    by blast
  from inst [where t = 100]
  have "call_url (logs_call test_client 1 ''abc123'' (Some 50000))
      = baseUrl test_client @ ''/api/endpoints/'' @ show_int 1 @ ''/docker/containers/''
        @ ''abc123'' @ ''/logs?stdout=true&stderr=true&tail=''
        @ show_int (clampedTail (case Some 50000 of None \<Rightarrow> 100 | Some t \<Rightarrow> t))"
    by blast
  then have c: "call_url (logs_call test_client 1 ''abc123'' (Some 50000))
      = ''https://portainer.example.com/api/endpoints/1/docker/containers/abc123/logs?stdout=true&stderr=true&tail=10000''"
    by (simp add: a test_client_def new_PortainerClient_def show_int_def show_nat.simps)
  from big small a b c show ?thesis
    by blast
qed

lemma get_property_not_null: "s \<noteq> JNull \<Longrightarrow> \<exists>v. get_property s key = Inr v"
  by (cases s) simp_all

lemma get_property_Some_truthy: "get_property s key = Inr (Some v) \<Longrightarrow> ToBoolean (Some s)"
  by (cases s) simp_all

lemma find_Name_none:
  assumes "JNull \<notin> set stacks"
    and "\<forall>s \<in> set stacks. get_property s ''Name'' \<noteq> Inr (Some (JString name))"
  shows "find_Name name stacks = Inr None"
  using assms
proof (induction stacks)
  case Nil
  show ?case by simp
next
  case (Cons s stacks)
  then obtain v where "get_property s ''Name'' = Inr v"
    using get_property_not_null [of s "''Name''"] by auto
  with Cons show ?case by auto
qed

lemma find_Name_first:
  assumes "JNull \<notin> set stacks"
    and "\<exists>s \<in> set stacks. get_property s ''Name'' = Inr (Some (JString name))"
  shows "\<exists>before s after. stacks = before @ s # after
           \<and> (\<forall>x \<in> set before. get_property x ''Name'' \<noteq> Inr (Some (JString name)))
           \<and> get_property s ''Name'' = Inr (Some (JString name))
           \<and> find_Name name stacks = Inr (Some s)"
  using assms
proof (induction stacks)
  case Nil
  then show ?case by simp
next
  case (Cons s stacks)
  show ?case
  proof (cases "get_property s ''Name'' = Inr (Some (JString name))")
    case True
    then have "s # stacks = [] @ s # stacks \<and> (\<forall>x \<in> set []. get_property x ''Name'' \<noteq> Inr (Some (JString name)))
        \<and> get_property s ''Name'' = Inr (Some (JString name))
        \<and> find_Name name (s # stacks) = Inr (Some s)"
      by simp
    then show ?thesis by blast
  next
    case False
    obtain v where v: "get_property s ''Name'' = Inr v"
      using Cons.prems(1) get_property_not_null [of s "''Name''"] by auto
    from False Cons.prems have "JNull \<notin> set stacks"
      and "\<exists>s \<in> set stacks. get_property s ''Name'' = Inr (Some (JString name))"
      by auto
    from Cons.IH [OF this] obtain before s' after where
      st: "stacks = before @ s' # after"
      and nb: "\<forall>x \<in> set before. get_property x ''Name'' \<noteq> Inr (Some (JString name))"
      and m: "get_property s' ''Name'' = Inr (Some (JString name))"
      and f: "find_Name name stacks = Inr (Some s')"
      by blast
    have "s # stacks = (s # before) @ s' # after
        \<and> (\<forall>x \<in> set (s # before). get_property x ''Name'' \<noteq> Inr (Some (JString name)))
        \<and> get_property s' ''Name'' = Inr (Some (JString name))
        \<and> find_Name name (s # stacks) = Inr (Some s')"
      using st nb m f False v by auto
    then show ?thesis by blast
  qed
qed

subsection \<open>Lookup of a stack by name\<close>

text \<open>
  C9. Let the remote return a collection of stacks (an array without
  \<^verbatim>\<open>null\<close> elements). If no element has the requested name, \<open>getStackByName\<close>
  throws a \<^verbatim>\<open>PortainerClientError\<close> with code \<^verbatim>\<open>NOT_FOUND\<close>, status 404 and
  the message \<^verbatim>\<open>Stack not found: <name>\<close>. If some element has the name, the
  first such element in the order of the collection is returned as it is.
\<close>

theorem stack_by_name:
  assumes "getStacks pf client net = (Inr (JArray stacks), net')"
    and "JNull \<notin> set stacks"
  shows "((\<forall>s \<in> set stacks. get_property s ''Name'' \<noteq> Inr (Some (JString name))) \<longrightarrow>
           getStackByName pf client name net
             = (Inl (ClientError \<lparr>message = ''Stack not found: '' @ name,
                                  code = ''NOT_FOUND'', statusCode = Some 404\<rparr>), net'))
       \<and> ((\<exists>s \<in> set stacks. get_property s ''Name'' = Inr (Some (JString name))) \<longrightarrow>
           (\<exists>before s after. stacks = before @ s # after
              \<and> (\<forall>x \<in> set before. get_property x ''Name'' \<noteq> Inr (Some (JString name)))
              \<and> get_property s ''Name'' = Inr (Some (JString name))
              \<and> getStackByName pf client name net = (Inr s, net')))"
proof (intro conjI impI)
  assume "\<forall>s \<in> set stacks. get_property s ''Name'' \<noteq> Inr (Some (JString name))"
  from find_Name_none [OF assms(2) this]
  show "getStackByName pf client name net
      = (Inl (ClientError \<lparr>message = ''Stack not found: '' @ name,
                           code = ''NOT_FOUND'', statusCode = Some 404\<rparr>), net')"
    by (simp add: getStackByName_def assms(1) Let_def)
next
  assume "\<exists>s \<in> set stacks. get_property s ''Name'' = Inr (Some (JString name))"
  from find_Name_first [OF assms(2) this] obtain before s after where
    st: "stacks = before @ s # after"
    and nb: "\<forall>x \<in> set before. get_property x ''Name'' \<noteq> Inr (Some (JString name))"
    and m: "get_property s ''Name'' = Inr (Some (JString name))"
    and f: "find_Name name stacks = Inr (Some s)"
    by blast
  have "getStackByName pf client name net = (Inr s, net')"
    using f get_property_Some_truthy [OF m] by (simp add: getStackByName_def assms(1) Let_def)
  with st nb m
  show "\<exists>before s after. stacks = before @ s # after
      \<and> (\<forall>x \<in> set before. get_property x ''Name'' \<noteq> Inr (Some (JString name)))
      \<and> get_property s ''Name'' = Inr (Some (JString name))
      \<and> getStackByName pf client name net = (Inr s, net')"
    by blast
qed

theorem stack_by_name_witness:
  "getStacks (test_platform stacks_response stacks_table) test_client []
     = (Inr (JArray [JObject [(''Id'', JNumber 1), (''Name'', JString ''mystack'')],
                     JObject [(''Id'', JNumber 2), (''Name'', JString ''other'')]]),
        [request_call (test_platform stacks_response stacks_table) test_client
           ''GET'' ''/stacks'' None])
   \<and> getStackByName (test_platform stacks_response stacks_table) test_client ''missing'' []
       = (Inl (ClientError \<lparr>message = ''Stack not found: missing'', code = ''NOT_FOUND'',
                            statusCode = Some 404\<rparr>),
          [request_call (test_platform stacks_response stacks_table) test_client
             ''GET'' ''/stacks'' None])
   \<and> getStackByName (test_platform stacks_response stacks_table) test_client ''other'' []
       = (Inr (JObject [(''Id'', JNumber 2), (''Name'', JString ''other'')]),
          [request_call (test_platform stacks_response stacks_table) test_client
             ''GET'' ''/stacks'' None])"
proof -
  let ?pf = "test_platform stacks_response stacks_table"
  let ?s1 = "JObject [(''Id'', JNumber 1), (''Name'', JString ''mystack'')]"
  let ?s2 = "JObject [(''Id'', JNumber 2), (''Name'', JString ''other'')]"
  let ?net = "[request_call ?pf test_client ''GET'' ''/stacks'' None]"
  have stacks: "getStacks ?pf test_client [] = (Inr (JArray [?s1, ?s2]), ?net)"
    by (simp add: getStacks_def request_def request_try_def request_catch_def test_platform_def
        JSON_parse_table_def stacks_response_def stacks_table_def stacks_body_def)
  have records: "JNull \<notin> set [?s1, ?s2]"
    by simp
  note inst = stack_by_name [OF stacks records]
  have none: "\<forall>s \<in> set [?s1, ?s2]. get_property s ''Name'' \<noteq> Inr (Some (JString ''missing''))"
    by simp
  from inst [of "''missing''"] none
  have a: "getStackByName ?pf test_client ''missing'' []
      = (Inl (ClientError \<lparr>message = ''Stack not found: '' @ ''missing'', code = ''NOT_FOUND'',
                           statusCode = Some 404\<rparr>), ?net)"
    by blast
  have some: "\<exists>s \<in> set [?s1, ?s2]. get_property s ''Name'' = Inr (Some (JString ''other''))"
    by simp
  from inst [of "''other''"] some
  obtain before s after where
    split: "[?s1, ?s2] = before @ s # after"
    and first: "\<forall>x \<in> set before. get_property x ''Name'' \<noteq> Inr (Some (JString ''other''))"
    and match: "get_property s ''Name'' = Inr (Some (JString ''other''))"
    and result: "getStackByName ?pf test_client ''other'' [] = (Inr s, ?net)"
    by blast
  from split have "s \<in> set [?s1, ?s2]"
    by (metis in_set_conv_decomp)
  with match have "s = ?s2"
    by auto
  with result have b: "getStackByName ?pf test_client ''other'' [] = (Inr ?s2, ?net)"
    by simp
  from stacks a b show ?thesis
    by simp
qed

end
